theory Spec2Isabelle
  imports Complex_Main
begin

section \<open>Python values and the built-in operations the handler uses\<close>

text \<open>
  The values that \<^verbatim>\<open>response.json()\<close> builds, which are also the plain Python values
  the handler computes with: \<^verbatim>\<open>None\<close>, \<^verbatim>\<open>bool\<close>, \<^verbatim>\<open>int\<close> (unbounded),
  \<^verbatim>\<open>float\<close>, \<^verbatim>\<open>str\<close>, \<^verbatim>\<open>list\<close> and \<^verbatim>\<open>dict\<close> with string keys.
  A float is kept as the rational number it denotes; infinities and NaN are outside the
  model. A str is the list of its characters, taken as code points
  below 256. A dict is an association list with distinct keys, read with \<open>map_of\<close>.
  A \<^verbatim>\<open>numpy.float64\<close> taken out of a prediction is a \<^verbatim>\<open>float\<close> as well.
\<close>

datatype pyval =
    PNone
  | PBool bool
  | PInt int
  | PFloat rat
  | PStr string
  | PList "pyval list"
  | PDict "(string \<times> pyval) list"

text \<open>The exceptions that can reach the handler's \<^verbatim>\<open>except\<close> clauses.\<close>

datatype py_error =
    KeyError string
  | TypeError
  | ValueError
  | AttributeError
  | IndexError
  | ZeroDivisionError
  | OverflowError
  | HTTPStatusError int
  | RequestError
  | JSONDecodeError

text \<open>Sequencing of fallible steps: the first exception raised ends the computation.\<close>

definition and_then :: "py_error + 'a \<Rightarrow> ('a \<Rightarrow> py_error + 'b) \<Rightarrow> py_error + 'b" where
  "and_then m f = (case m of Inl e \<Rightarrow> Inl e | Inr x \<Rightarrow> f x)"

text \<open>\<^verbatim>\<open>obj[key]\<close> with a string key: only a dict can answer; a missing key is KeyError.\<close>

fun getitem :: "pyval \<Rightarrow> string \<Rightarrow> py_error + pyval" where
  "getitem (PDict kvs) k = (case map_of kvs k of None \<Rightarrow> Inl (KeyError k) | Some v \<Rightarrow> Inr v)"
| "getitem _ k = Inl TypeError"

text \<open>\<^verbatim>\<open>obj.get(key, default)\<close>: a dict method; any other value has no such attribute.\<close>

fun get_default :: "pyval \<Rightarrow> string \<Rightarrow> pyval \<Rightarrow> py_error + pyval" where
  "get_default (PDict kvs) k d = (case map_of kvs k of None \<Rightarrow> Inr d | Some v \<Rightarrow> Inr v)"
| "get_default _ k d = Inl AttributeError"

text \<open>\<^verbatim>\<open>s.endswith(suffix)\<close>: a str method.\<close>

definition ends_with :: "string \<Rightarrow> string \<Rightarrow> bool" where
  "ends_with s sfx = (length sfx \<le> length s \<and> drop (length s - length sfx) s = sfx)"

fun endswith :: "pyval \<Rightarrow> string \<Rightarrow> py_error + bool" where
  "endswith (PStr s) sfx = Inr (ends_with s sfx)"
| "endswith _ sfx = Inl AttributeError"

text \<open>\<^verbatim>\<open>for x in obj\<close>: the elements of a list, the keys of a dict, the characters of a str.\<close>

fun iterate :: "pyval \<Rightarrow> py_error + pyval list" where
  "iterate (PList xs) = Inr xs"
| "iterate (PDict kvs) = Inr (map PStr (remdups (map fst kvs)))"
| "iterate (PStr s) = Inr (map (\<lambda>c. PStr [c]) s)"
| "iterate _ = Inl TypeError"

text \<open>\<^verbatim>\<open>len(obj)\<close>.\<close>

fun len :: "pyval \<Rightarrow> py_error + int" where
  "len (PList xs) = Inr (int (length xs))"
| "len (PDict kvs) = Inr (int (length (remdups (map fst kvs))))"
| "len (PStr s) = Inr (int (length s))"
| "len _ = Inl TypeError"

text \<open>
  \<^verbatim>\<open>int(obj)\<close>: an int is returned as it is, a bool is 0 or 1, a float is truncated
  towards zero, and a str is parsed: surrounding white space is stripped, then comes an
  optional sign, then decimal digits in which single underscores may stand between two
  digits. Anything else is a TypeError, a str of another form a ValueError.

  The white space that \<^verbatim>\<open>int\<close> strips is tab, line feed, vertical tab, form feed,
  carriage return and space (9 to 13, and 32) and, beyond ASCII, next line (133) and the
  no-break space (160); the separators 28 to 31 are not stripped. A str of more than 4300
  digits is refused with a ValueError too (the default of \<^verbatim>\<open>sys.set_int_max_str_digits\<close>,
  which counts the digits, leading zeros included, and neither underscores, sign nor
  white space).
\<close>

definition is_space :: "char \<Rightarrow> bool" where
  "is_space c =
     (let n = (of_char c :: nat)
      in (9 \<le> n \<and> n \<le> 13) \<or> n = 32 \<or> n = 133 \<or> n = 160)"

definition is_digit :: "char \<Rightarrow> bool" where
  "is_digit c = (let n = (of_char c :: nat) in 48 \<le> n \<and> n \<le> 57)"

definition digit_value :: "char \<Rightarrow> nat" where
  "digit_value c = of_char c - 48"

definition strip :: "string \<Rightarrow> string" where
  "strip s = rev (dropWhile is_space (rev (dropWhile is_space s)))"

fun parse_digits :: "bool \<Rightarrow> nat \<Rightarrow> string \<Rightarrow> nat option" where
  "parse_digits after_digit acc [] = (if after_digit then Some acc else None)"
| "parse_digits after_digit acc (c # cs) =
     (if is_digit c then parse_digits True (10 * acc + digit_value c) cs
      else if c = CHR ''_'' \<and> after_digit then parse_digits False acc cs
      else None)"

definition max_str_digits :: nat where
  "max_str_digits = 4300"

definition parse_number :: "string \<Rightarrow> nat option" where
  "parse_number cs =
     (if max_str_digits < length (filter is_digit cs) then None else parse_digits False 0 cs)"

definition int_of_str :: "string \<Rightarrow> int option" where
  "int_of_str s =
     (case strip s of
        [] \<Rightarrow> None
      | c # cs \<Rightarrow>
          if c = CHR ''-'' then map_option (\<lambda>n. - int n) (parse_number cs)
          else if c = CHR ''+'' then map_option int (parse_number cs)
          else map_option int (parse_number (c # cs)))"

definition trunc :: "rat \<Rightarrow> int" where
  "trunc q = (if q < 0 then - \<lfloor>- q\<rfloor> else \<lfloor>q\<rfloor>)"

fun int_py :: "pyval \<Rightarrow> py_error + int" where
  "int_py (PInt n) = Inr n"
| "int_py (PBool b) = Inr (if b then 1 else 0)"
| "int_py (PFloat q) = Inr (trunc q)"
| "int_py (PStr s) = (case int_of_str s of None \<Rightarrow> Inl ValueError | Some n \<Rightarrow> Inr n)"
| "int_py _ = Inl TypeError"

text \<open>
  The float nearest to a rational number, as IEEE 754 binary64 has it: 53 significant
  bits, the exponent of the last place no lower than \<open>- 1074\<close> (so that small numbers are
  rounded to subnormal floats, and to zero), ties to the even neighbour, and no float from
  \<open>2 ^ 1024\<close> on. \<open>bit_length\<close> is the number of bits of a positive int, \<open>exponent\<close> the
  floor of the binary logarithm of a positive rational.
\<close>

definition pow2 :: "int \<Rightarrow> rat" where
  "pow2 e = (if 0 \<le> e then 2 ^ nat e else 1 / 2 ^ nat (- e))"

function bit_length :: "int \<Rightarrow> int" where
  "bit_length n = (if n \<le> 0 then 0 else 1 + bit_length (n div 2))"
  by pat_completeness auto
termination
  by (relation "measure nat") auto

declare bit_length.simps [simp del]

definition exponent :: "rat \<Rightarrow> int" where
  "exponent x =
     (let (n, d) = quotient_of x; e = bit_length n - bit_length d
      in if pow2 e \<le> x then e else e - 1)"

definition round_half_even :: "rat \<Rightarrow> int" where
  "round_half_even x =
     (let f = \<lfloor>x\<rfloor>; r = x - of_int f
      in if r < 1 / 2 then f else if 1 / 2 < r then f + 1 else if even f then f else f + 1)"

definition to_float :: "rat \<Rightarrow> rat option" where
  "to_float x =
     (if x = 0 then Some 0
      else let e = max (exponent \<bar>x\<bar>) (- 1022);
               ulp = pow2 (e - 52);
               y = of_int (round_half_even (x / ulp)) * ulp
           in if pow2 1024 \<le> \<bar>y\<bar> then None else Some y)"

text \<open>
  \<^verbatim>\<open>a / b\<close> on two ints: true division. ZeroDivisionError when the divisor is 0;
  otherwise the float nearest to the quotient, and OverflowError when there is none. (The
  sign of a zero result is not kept.)
\<close>

definition truediv :: "int \<Rightarrow> int \<Rightarrow> py_error + pyval" where
  "truediv a b =
     (if b = 0 then Inl ZeroDivisionError
      else case to_float (of_int a / of_int b) of
             None \<Rightarrow> Inl OverflowError
           | Some q \<Rightarrow> Inr (PFloat q))"

section \<open>The two predictors\<close>

text \<open>
  What \<^verbatim>\<open>model.predict\<close> returns: a numeric array of dimension 0, 1 or 2 (a regressor
  of scikit-learn returns shape \<open>(n)\<close> or \<open>(n, k)\<close>). A predictor is a parameter of the
  model: a function from the feature matrix given to \<^verbatim>\<open>np.array\<close> to the array
  predicted, or to the exception that \<^verbatim>\<open>np.array\<close> or \<^verbatim>\<open>predict\<close> raises.
\<close>

datatype ndarray = Nd0 rat | Nd1 "rat list" | Nd2 "rat list list"

fun ndim :: "ndarray \<Rightarrow> nat" where
  "ndim (Nd0 x) = 0"
| "ndim (Nd1 xs) = 1"
| "ndim (Nd2 rows) = 2"

text \<open>
  \<^verbatim>\<open>prediction[0]\<close>, which the wrappers evaluate when the array has one dimension:
  its first element, IndexError when it has none.
\<close>

fun first_elem :: "ndarray \<Rightarrow> py_error + rat" where
  "first_elem (Nd1 (x # xs)) = Inr x"
| "first_elem _ = Inl IndexError"

text \<open>
  \<^verbatim>\<open>prediction[0][0]\<close>, which they evaluate otherwise: the first element of the first
  row of a 2-d array, IndexError when there is no row or the row is empty, and IndexError
  on a 0-d array, which takes no index.
\<close>

fun first_row_first_col :: "ndarray \<Rightarrow> py_error + rat" where
  "first_row_first_col (Nd2 ((x # xs) # rows)) = Inr x"
| "first_row_first_col _ = Inl IndexError"

type_synonym predictor = "pyval list list \<Rightarrow> py_error + ndarray"

section \<open>Effects: the requests sent and the predictions asked for\<close>

record request =
  url :: string
  follow_redirects :: bool

record response =
  status_code :: int
  body :: "pyval option"

datatype model = Credibility | Influencer

datatype event = Get request | Predict model "pyval list list"

text \<open>
  The network answers a request with a response or with a transport failure; the answer
  may depend on everything that happened before. An effectful step takes the trace of
  events so far and returns its result with the trace extended.
\<close>

type_synonym network = "event list \<Rightarrow> request \<Rightarrow> py_error + response"

type_synonym 'a io = "event list \<Rightarrow> (py_error + 'a) \<times> event list"

definition io_bind :: "'a io \<Rightarrow> ('a \<Rightarrow> 'b io) \<Rightarrow> 'b io" where
  "io_bind m f = (\<lambda>tr. case m tr of (Inl e, tr') \<Rightarrow> (Inl e, tr') | (Inr x, tr') \<Rightarrow> f x tr')"

definition io_pure :: "py_error + 'a \<Rightarrow> 'a io" where
  "io_pure r = (\<lambda>tr. (r, tr))"

definition is_success :: "int \<Rightarrow> bool" where
  "is_success s = (200 \<le> s \<and> s \<le> 299)"

definition raise_for_status :: "response \<Rightarrow> py_error + response" where
  "raise_for_status r =
     (if is_success (status_code r) then Inr r else Inl (HTTPStatusError (status_code r)))"

definition json :: "response \<Rightarrow> py_error + pyval" where
  "json r = (case body r of None \<Rightarrow> Inl JSONDecodeError | Some v \<Rightarrow> Inr v)"

definition user_posts_request :: "string \<Rightarrow> request" where
  "user_posts_request address =
     \<lparr>url = ''https://resources-bfih.onrender.com/get-user-posts?AccountAddress='' @ address,
      follow_redirects = False\<rparr>"

definition coin_balances_request :: "string \<Rightarrow> request" where
  "coin_balances_request address =
     \<lparr>url = ''https://balance-7m39.onrender.com/coin_balances?address='' @ address,
      follow_redirects = True\<rparr>"

definition fetch_user_posts :: "network \<Rightarrow> string \<Rightarrow> pyval io" where
  "fetch_user_posts net address = (\<lambda>tr.
     (and_then (net tr (user_posts_request address)) (\<lambda>response.
      and_then (raise_for_status response) (\<lambda>_. json response)),
      tr @ [Get (user_posts_request address)]))"

definition fetch_coin_balances :: "network \<Rightarrow> string \<Rightarrow> pyval io" where
  "fetch_coin_balances net address = (\<lambda>tr.
     (and_then (net tr (coin_balances_request address)) (\<lambda>response.
      and_then (raise_for_status response) (\<lambda>_. json response)),
      tr @ [Get (coin_balances_request address)]))"

section \<open>The two inference wrappers\<close>

text \<open>
  The module-level models are parameters. Each wrapper builds its feature matrix, asks for
  the prediction (an event of the trace) and takes the scalar out of it. The dict given to
  \<^verbatim>\<open>calculate_berries\<close> is read key by key, in the order of the source.
\<close>

definition calculate_credibility_weight :: "predictor \<Rightarrow> pyval \<Rightarrow> pyval \<Rightarrow> rat io" where
  "calculate_credibility_weight credibility_model onchain_net_worth followers_of_followers =
     (\<lambda>tr. let features = [[onchain_net_worth, followers_of_followers]] in
        (and_then (credibility_model features) (\<lambda>prediction.
           if ndim prediction = 1 then first_elem prediction
           else first_row_first_col prediction),
         tr @ [Predict Credibility features]))"

definition berries_features :: "pyval \<Rightarrow> py_error + pyval list list" where
  "berries_features input_data =
     and_then (getitem input_data ''followers'') (\<lambda>f.
     and_then (getitem input_data ''likes'') (\<lambda>l.
     and_then (getitem input_data ''comments'') (\<lambda>c.
     and_then (getitem input_data ''ads_purchased_from_profile'') (\<lambda>ads.
     and_then (getitem input_data ''average_likes_per_day'') (\<lambda>al.
     and_then (getitem input_data ''average_comments_per_day'') (\<lambda>ac.
     and_then (getitem input_data ''credibility_weight'') (\<lambda>cw.
       Inr [[f, l, c, ads, al, ac, cw]])))))))"

definition calculate_berries :: "predictor \<Rightarrow> pyval \<Rightarrow> rat io" where
  "calculate_berries influencer_model input_data =
     io_bind (io_pure (berries_features input_data)) (\<lambda>features tr.
        (and_then (influencer_model features) (\<lambda>prediction.
           if ndim prediction = 1 then first_elem prediction
           else first_row_first_col prediction),
         tr @ [Predict Influencer features]))"

section \<open>Aggregation of the two payloads\<close>

text \<open>
  The four counters of the handler, and its two loops as recursive functions over the
  list that the iteration yields; an exception ends a loop at once.
\<close>

record aggregate =
  total_followers :: int
  total_likes :: int
  total_comments :: int
  total_posts :: int

definition profile_suffix :: string where
  "profile_suffix = ''::SocialMediaPlatform::Profile''"

definition user_posts_suffix :: string where
  "user_posts_suffix = ''::SocialMediaPlatform::UserPosts''"

text \<open>The inner loop over the posts of one posts resource.\<close>

fun scan_posts :: "aggregate \<Rightarrow> pyval list \<Rightarrow> py_error + aggregate" where
  "scan_posts a [] = Inr a"
| "scan_posts a (post # posts) =
     and_then (getitem post ''like_count'') (\<lambda>lc.
     and_then (int_py lc) (\<lambda>likes.
     and_then (getitem post ''comments'') (\<lambda>cs.
     and_then (len cs) (\<lambda>n.
       scan_posts
         (a\<lparr>total_likes := total_likes a + likes,
            total_comments := total_comments a + n,
            total_posts := total_posts a + 1\<rparr>) posts))))"

text \<open>The body of the outer loop: one resource.\<close>

definition add_resource :: "aggregate \<Rightarrow> pyval \<Rightarrow> py_error + aggregate" where
  "add_resource a resource =
     and_then (getitem resource ''type'') (\<lambda>t.
     and_then (endswith t profile_suffix) (\<lambda>is_profile.
       if is_profile then
         and_then (getitem resource ''data'') (\<lambda>d.
         and_then (getitem d ''followers_count'') (\<lambda>fc.
         and_then (int_py fc) (\<lambda>n.
           Inr (a\<lparr>total_followers := total_followers a + n\<rparr>))))
       else
         and_then (getitem resource ''type'') (\<lambda>t'.
         and_then (endswith t' user_posts_suffix) (\<lambda>is_user_posts.
           if is_user_posts then
             and_then (getitem resource ''data'') (\<lambda>d.
             and_then (getitem d ''posts'') (\<lambda>ps.
             and_then (iterate ps) (\<lambda>posts. scan_posts a posts)))
           else Inr a))))"

fun scan_resources :: "aggregate \<Rightarrow> pyval list \<Rightarrow> py_error + aggregate" where
  "scan_resources a [] = Inr a"
| "scan_resources a (resource # resources) =
     and_then (add_resource a resource) (\<lambda>a'. scan_resources a' resources)"

definition aggregate_posts :: "pyval \<Rightarrow> py_error + aggregate" where
  "aggregate_posts user_posts_data =
     and_then (getitem user_posts_data ''resources'') (\<lambda>res.
     and_then (iterate res) (\<lambda>resources.
       scan_resources
         \<lparr>total_followers = 0, total_likes = 0, total_comments = 0, total_posts = 0\<rparr>
         resources))"

definition average_likes_per_day :: "aggregate \<Rightarrow> py_error + pyval" where
  "average_likes_per_day a =
     (if total_posts a > 0 then truediv (total_likes a) (total_posts a) else Inr (PInt 0))"

definition average_comments_per_day :: "aggregate \<Rightarrow> py_error + pyval" where
  "average_comments_per_day a =
     (if total_posts a > 0 then truediv (total_comments a) (total_posts a) else Inr (PInt 0))"

text \<open>
  The loop over the balances: the net worth found so far is the first argument, and a
  match returns at once (the \<^verbatim>\<open>break\<close>).
\<close>

fun scan_balances :: "pyval \<Rightarrow> pyval list \<Rightarrow> py_error + pyval" where
  "scan_balances net_worth [] = Inr net_worth"
| "scan_balances net_worth (balance # balances) =
     and_then (getitem balance ''metadata'') (\<lambda>m.
     and_then (getitem m ''symbol'') (\<lambda>s.
       if s = PStr ''APT'' then get_default balance ''amount_in_usd'' (PInt 0)
       else scan_balances net_worth balances))"

definition onchain_net_worth :: "pyval \<Rightarrow> py_error + pyval" where
  "onchain_net_worth coin_balances =
     and_then (getitem coin_balances ''latest_balances'') (\<lambda>bs.
     and_then (iterate bs) (\<lambda>balances. scan_balances (PInt 0) balances))"

section \<open>The endpoint\<close>

record berry_calculation_output =
  credibility_weight :: rat
  berries :: rat

text \<open>The detail of an error response names its category and carries the exception.\<close>

datatype detail =
    Error_fetching_external_data py_error
  | Unexpected_data_structure py_error
  | Internal_Server_Error py_error

datatype http_exception = HTTPException int detail

text \<open>
  The body of the \<^verbatim>\<open>try\<close> block. The two fields of the output are floats taken out of
  predictions, which the output model accepts as they are. Logging is not modelled.
\<close>

definition endpoint_try ::
  "network \<Rightarrow> predictor \<Rightarrow> predictor \<Rightarrow> string \<Rightarrow> berry_calculation_output io" where
  "endpoint_try net credibility_model influencer_model address =
     (let followers_of_followers = PInt 5000;
          ads_purchased_from_profile = PInt 10 in
      io_bind (fetch_user_posts net address) (\<lambda>user_posts_data.
      io_bind (io_pure (aggregate_posts user_posts_data)) (\<lambda>agg.
      io_bind (io_pure (average_likes_per_day agg)) (\<lambda>avg_likes.
      io_bind (io_pure (average_comments_per_day agg)) (\<lambda>avg_comments.
      io_bind (fetch_coin_balances net address) (\<lambda>coin_balances.
      io_bind (io_pure (onchain_net_worth coin_balances)) (\<lambda>net_worth.
      io_bind (calculate_credibility_weight credibility_model net_worth followers_of_followers)
        (\<lambda>cw.
      io_bind (calculate_berries influencer_model
          (PDict [(''followers'', PInt (total_followers agg)),
                  (''likes'', PInt (total_likes agg)),
                  (''comments'', PInt (total_comments agg)),
                  (''ads_purchased_from_profile'', ads_purchased_from_profile),
                  (''average_likes_per_day'', avg_likes),
                  (''average_comments_per_day'', avg_comments),
                  (''credibility_weight'', PFloat cw)])) (\<lambda>b.
      io_pure (Inr \<lparr>credibility_weight = cw, berries = b\<rparr>))))))))))"

text \<open>The three \<^verbatim>\<open>except\<close> clauses, in the order of the source.\<close>

fun translate :: "py_error \<Rightarrow> http_exception" where
  "translate (HTTPStatusError s) =
     HTTPException s (Error_fetching_external_data (HTTPStatusError s))"
| "translate (KeyError k) = HTTPException 500 (Unexpected_data_structure (KeyError k))"
| "translate e = HTTPException 500 (Internal_Server_Error e)"

definition calculate_berries_endpoint ::
  "network \<Rightarrow> predictor \<Rightarrow> predictor \<Rightarrow> string \<Rightarrow> event list
     \<Rightarrow> (http_exception + berry_calculation_output) \<times> event list" where
  "calculate_berries_endpoint net credibility_model influencer_model address tr =
     (case endpoint_try net credibility_model influencer_model address tr of
        (Inl e, tr') \<Rightarrow> (Inl (translate e), tr')
      | (Inr out, tr') \<Rightarrow> (Inr out, tr'))"

section \<open>Notions in which the properties are stated\<close>

subsection \<open>What a resource contributes\<close>

text \<open>
  A resource is profile-like when its type tag is a string ending in the profile suffix,
  and posts-like when the tag does not, and ends in the posts suffix: the two branches of
  the loop body. The counts read from a resource are 0 where the handler would fail.
\<close>

definition profile_like :: "pyval \<Rightarrow> bool" where
  "profile_like r =
     (case getitem r ''type'' of Inr (PStr t) \<Rightarrow> ends_with t profile_suffix | _ \<Rightarrow> False)"

definition posts_like :: "pyval \<Rightarrow> bool" where
  "posts_like r =
     (case getitem r ''type'' of
        Inr (PStr t) \<Rightarrow> \<not> ends_with t profile_suffix \<and> ends_with t user_posts_suffix
      | _ \<Rightarrow> False)"

definition follower_count :: "pyval \<Rightarrow> int" where
  "follower_count r =
     (case and_then (getitem r ''data'') (\<lambda>d. and_then (getitem d ''followers_count'') int_py) of
        Inr n \<Rightarrow> n | Inl _ \<Rightarrow> 0)"

definition posts_of :: "pyval \<Rightarrow> pyval list" where
  "posts_of r =
     (case and_then (getitem r ''data'') (\<lambda>d. and_then (getitem d ''posts'') iterate) of
        Inr ps \<Rightarrow> ps | Inl _ \<Rightarrow> [])"

definition like_count :: "pyval \<Rightarrow> int" where
  "like_count p = (case and_then (getitem p ''like_count'') int_py of Inr n \<Rightarrow> n | Inl _ \<Rightarrow> 0)"

definition comment_count :: "pyval \<Rightarrow> int" where
  "comment_count p = (case and_then (getitem p ''comments'') len of Inr n \<Rightarrow> n | Inl _ \<Rightarrow> 0)"

text \<open>The totals as sums over the resources of a payload.\<close>

definition resource_totals :: "pyval list \<Rightarrow> aggregate" where
  "resource_totals rs =
     \<lparr>total_followers = sum_list (map follower_count (filter profile_like rs)),
      total_likes = sum_list (map (\<lambda>r. sum_list (map like_count (posts_of r))) (filter posts_like rs)),
      total_comments =
        sum_list (map (\<lambda>r. sum_list (map comment_count (posts_of r))) (filter posts_like rs)),
      total_posts = sum_list (map (\<lambda>r. int (length (posts_of r))) (filter posts_like rs))\<rparr>"

text \<open>The scalar that either wrapper takes out of a prediction.\<close>

definition first_scalar :: "ndarray \<Rightarrow> py_error + rat" where
  "first_scalar prediction =
     (if ndim prediction = 1 then first_elem prediction else first_row_first_col prediction)"

subsection \<open>Payloads with every expected key, and with values of the expected types\<close>

text \<open>
  \<open>complete\<close>: every key that the handler looks up is there. \<open>typed\<close>: whatever is
  there has the type the handler expects of it (a dict where it takes a key, a list where
  it iterates, a str for the type tag, a value that \<^verbatim>\<open>int\<close> or \<^verbatim>\<open>len\<close> accepts).
\<close>

definition has_key :: "pyval \<Rightarrow> string \<Rightarrow> bool" where
  "has_key v k = (case getitem v k of Inr _ \<Rightarrow> True | Inl _ \<Rightarrow> False)"

definition is_dict :: "pyval \<Rightarrow> bool" where
  "is_dict v = (case v of PDict _ \<Rightarrow> True | _ \<Rightarrow> False)"

definition post_complete :: "pyval \<Rightarrow> bool" where
  "post_complete p = (has_key p ''like_count'' \<and> has_key p ''comments'')"

definition post_typed :: "pyval \<Rightarrow> bool" where
  "post_typed p =
     (is_dict p \<and>
      (case getitem p ''like_count'' of Inl _ \<Rightarrow> True | Inr v \<Rightarrow> \<not> isl (int_py v)) \<and>
      (case getitem p ''comments'' of Inl _ \<Rightarrow> True | Inr c \<Rightarrow> \<not> isl (len c)))"

definition resource_complete :: "pyval \<Rightarrow> bool" where
  "resource_complete r =
     (has_key r ''type'' \<and>
      (if profile_like r then
         (case getitem r ''data'' of Inl _ \<Rightarrow> False | Inr d \<Rightarrow> has_key d ''followers_count'')
       else if posts_like r then
         (case getitem r ''data'' of
            Inl _ \<Rightarrow> False
          | Inr d \<Rightarrow> has_key d ''posts'' \<and> list_all post_complete (posts_of r))
       else True))"

definition resource_typed :: "pyval \<Rightarrow> bool" where
  "resource_typed r =
     (is_dict r \<and>
      (case getitem r ''type'' of
         Inl _ \<Rightarrow> True
       | Inr t \<Rightarrow>
           (case t of
              PStr s \<Rightarrow>
                if ends_with s profile_suffix then
                  (case getitem r ''data'' of
                     Inl _ \<Rightarrow> True
                   | Inr d \<Rightarrow> is_dict d \<and>
                       (case getitem d ''followers_count'' of
                          Inl _ \<Rightarrow> True | Inr f \<Rightarrow> \<not> isl (int_py f)))
                else if ends_with s user_posts_suffix then
                  (case getitem r ''data'' of
                     Inl _ \<Rightarrow> True
                   | Inr d \<Rightarrow> is_dict d \<and>
                       (case getitem d ''posts'' of
                          Inl _ \<Rightarrow> True
                        | Inr ps \<Rightarrow> (case ps of PList xs \<Rightarrow> list_all post_typed xs | _ \<Rightarrow> False)))
                else True
            | _ \<Rightarrow> False)))"

definition resources_of :: "pyval \<Rightarrow> pyval list" where
  "resources_of p =
     (case and_then (getitem p ''resources'') iterate of Inr rs \<Rightarrow> rs | Inl _ \<Rightarrow> [])"

definition user_posts_complete :: "pyval \<Rightarrow> bool" where
  "user_posts_complete p =
     (has_key p ''resources'' \<and> list_all resource_complete (resources_of p))"

definition user_posts_typed :: "pyval \<Rightarrow> bool" where
  "user_posts_typed p =
     (is_dict p \<and>
      (case getitem p ''resources'' of
         Inl _ \<Rightarrow> True
       | Inr rs \<Rightarrow> (case rs of PList xs \<Rightarrow> list_all resource_typed xs | _ \<Rightarrow> False)))"

subsection \<open>Balances\<close>

text \<open>
  The symbol of a balance entry, the entries that the scan reaches (those up to and
  including the first one whose symbol is APT), and the amount of an entry, 0 when it
  has none.
\<close>

definition symbol_of :: "pyval \<Rightarrow> py_error + pyval" where
  "symbol_of b = and_then (getitem b ''metadata'') (\<lambda>m. getitem m ''symbol'')"

definition is_apt :: "pyval \<Rightarrow> bool" where
  "is_apt b = (symbol_of b = Inr (PStr ''APT''))"

definition usd_amount :: "pyval \<Rightarrow> pyval" where
  "usd_amount b = (case get_default b ''amount_in_usd'' (PInt 0) of Inr v \<Rightarrow> v | Inl _ \<Rightarrow> PInt 0)"

fun scanned :: "pyval list \<Rightarrow> pyval list" where
  "scanned [] = []"
| "scanned (b # bs) = (if is_apt b then [b] else b # scanned bs)"

definition balance_complete :: "pyval \<Rightarrow> bool" where
  "balance_complete b = (case getitem b ''metadata'' of Inl _ \<Rightarrow> False | Inr m \<Rightarrow> has_key m ''symbol'')"

definition balance_typed :: "pyval \<Rightarrow> bool" where
  "balance_typed b =
     (is_dict b \<and> (case getitem b ''metadata'' of Inl _ \<Rightarrow> True | Inr m \<Rightarrow> is_dict m))"

definition balances_of :: "pyval \<Rightarrow> pyval list" where
  "balances_of cb =
     (case and_then (getitem cb ''latest_balances'') iterate of Inr bs \<Rightarrow> bs | Inl _ \<Rightarrow> [])"

definition coin_balances_complete :: "pyval \<Rightarrow> bool" where
  "coin_balances_complete cb =
     (has_key cb ''latest_balances'' \<and> list_all balance_complete (scanned (balances_of cb)))"

definition coin_balances_typed :: "pyval \<Rightarrow> bool" where
  "coin_balances_typed cb =
     (is_dict cb \<and>
      (case getitem cb ''latest_balances'' of
         Inl _ \<Rightarrow> True
       | Inr bs \<Rightarrow> (case bs of PList xs \<Rightarrow> list_all balance_typed (scanned xs) | _ \<Rightarrow> False)))"

section \<open>Payloads, a network and predictors for concrete runs\<close>

definition profile_resource :: "pyval \<Rightarrow> pyval" where
  "profile_resource n =
     PDict [(''type'', PStr ''0x1::SocialMediaPlatform::Profile''),
            (''data'', PDict [(''followers_count'', n)])]"

definition post :: "pyval \<Rightarrow> pyval list \<Rightarrow> pyval" where
  "post likes comments = PDict [(''like_count'', likes), (''comments'', PList comments)]"

definition posts_resource :: "pyval list \<Rightarrow> pyval" where
  "posts_resource ps =
     PDict [(''type'', PStr ''0x1::SocialMediaPlatform::UserPosts''),
            (''data'', PDict [(''posts'', PList ps)])]"

definition user_posts_payload :: "pyval list \<Rightarrow> pyval" where
  "user_posts_payload rs = PDict [(''resources'', PList rs)]"

definition balance :: "string \<Rightarrow> pyval \<Rightarrow> pyval" where
  "balance symbol amount =
     PDict [(''metadata'', PDict [(''symbol'', PStr symbol)]), (''amount_in_usd'', amount)]"

definition balance_without_amount :: "string \<Rightarrow> pyval" where
  "balance_without_amount symbol = PDict [(''metadata'', PDict [(''symbol'', PStr symbol)])]"

definition coin_balances_payload :: "pyval list \<Rightarrow> pyval" where
  "coin_balances_payload bs = PDict [(''latest_balances'', PList bs)]"

text \<open>
  A network that answers the two requests of one address with two fixed replies, and a
  predictor that returns one fixed array.
\<close>

definition ok :: "pyval \<Rightarrow> py_error + response" where
  "ok v = Inr \<lparr>status_code = 200, body = Some v\<rparr>"

definition status :: "int \<Rightarrow> py_error + response" where
  "status s = Inr \<lparr>status_code = s, body = None\<rparr>"

definition stub_network :: "string \<Rightarrow> py_error + response \<Rightarrow> py_error + response \<Rightarrow> network" where
  "stub_network address posts_reply balances_reply = (\<lambda>tr rq.
     if rq = user_posts_request address then posts_reply
     else if rq = coin_balances_request address then balances_reply
     else Inl RequestError)"

definition stub_predictor :: "ndarray \<Rightarrow> predictor" where
  "stub_predictor prediction = (\<lambda>features. Inr prediction)"

section \<open>Lemmas about the loops and the endpoint\<close>

lemma and_then_Inr_iff:
  "and_then m f = Inr y \<longleftrightarrow> (\<exists>x. m = Inr x \<and> f x = Inr y)"
  by (cases m) (simp_all add: and_then_def)

lemma and_then_Inl_iff:
  "and_then m f = Inl e \<longleftrightarrow> m = Inl e \<or> (\<exists>x. m = Inr x \<and> f x = Inl e)"
  by (cases m) (simp_all add: and_then_def)

lemma and_then_simps [simp]:
  "and_then (Inl e) f = Inl e"
  "and_then (Inr x) f = f x"
  by (simp_all add: and_then_def)

lemma scan_posts_totals:
  "scan_posts a ps = Inr a' \<Longrightarrow>
     a' = a\<lparr>total_likes := total_likes a + sum_list (map like_count ps),
            total_comments := total_comments a + sum_list (map comment_count ps),
            total_posts := total_posts a + int (length ps)\<rparr>"
proof (induction ps arbitrary: a)
  case Nil
  then show ?case by simp
next
  case (Cons p ps)
  from Cons.prems obtain lc likes cs n where
    lc: "getitem p ''like_count'' = Inr lc" and likes: "int_py lc = Inr likes" and
    cs: "getitem p ''comments'' = Inr cs" and n: "len cs = Inr n" and
    rest: "scan_posts (a\<lparr>total_likes := total_likes a + likes,
            total_comments := total_comments a + n,
            total_posts := total_posts a + 1\<rparr>) ps = Inr a'"
    by (auto simp: and_then_Inr_iff)
  have "like_count p = likes" "comment_count p = n"
    by (simp_all add: like_count_def comment_count_def lc likes cs n)
  with Cons.IH [OF rest] show ?case by simp
qed

lemma add_resource_totals:
  assumes "add_resource a r = Inr a'"
  shows "a' = (if profile_like r then a\<lparr>total_followers := total_followers a + follower_count r\<rparr>
               else if posts_like r then
                 a\<lparr>total_likes := total_likes a + sum_list (map like_count (posts_of r)),
                   total_comments := total_comments a + sum_list (map comment_count (posts_of r)),
                   total_posts := total_posts a + int (length (posts_of r))\<rparr>
               else a)"
proof -
  from assms obtain t isp where t: "getitem r ''type'' = Inr t"
    and isp: "endswith t profile_suffix = Inr isp"
    by (auto simp: add_resource_def and_then_Inr_iff)
  from isp obtain s where s: "t = PStr s" "isp = ends_with s profile_suffix"
    by (cases t) auto
  show ?thesis
  proof (cases "ends_with s profile_suffix")
    case True
    then have pl: "profile_like r" by (simp add: profile_like_def t s)
    from assms True obtain d fc n where "getitem r ''data'' = Inr d"
      "getitem d ''followers_count'' = Inr fc" "int_py fc = Inr n"
      "a' = a\<lparr>total_followers := total_followers a + n\<rparr>"
      by (auto simp: add_resource_def t s and_then_Inr_iff)
    then show ?thesis using pl by (simp add: follower_count_def)
  next
    case False
    then have npl: "\<not> profile_like r" by (simp add: profile_like_def t s)
    show ?thesis
    proof (cases "ends_with s user_posts_suffix")
      case True
      then have pl: "posts_like r" using False by (simp add: posts_like_def t s)
      from assms True False obtain d ps posts where "getitem r ''data'' = Inr d"
        "getitem d ''posts'' = Inr ps" "iterate ps = Inr posts" "scan_posts a posts = Inr a'"
        by (auto simp: add_resource_def t s and_then_Inr_iff)
      then show ?thesis using pl npl scan_posts_totals [of a posts a']
        by (simp add: posts_of_def)
    next
      case True': False
      then have "\<not> posts_like r" by (simp add: posts_like_def t s)
      moreover from assms False True' have "a' = a" by (simp add: add_resource_def t s)
      ultimately show ?thesis using npl by simp
    qed
  qed
qed

lemma scan_resources_totals:
  "scan_resources a rs = Inr a' \<Longrightarrow>
     total_followers a' = total_followers a + sum_list (map follower_count (filter profile_like rs)) \<and>
     total_likes a' = total_likes a
        + sum_list (map (\<lambda>r. sum_list (map like_count (posts_of r))) (filter posts_like rs)) \<and>
     total_comments a' = total_comments a
        + sum_list (map (\<lambda>r. sum_list (map comment_count (posts_of r))) (filter posts_like rs)) \<and>
     total_posts a' = total_posts a
        + sum_list (map (\<lambda>r. int (length (posts_of r))) (filter posts_like rs))"
proof (induction rs arbitrary: a)
  case Nil
  then show ?case by simp
next
  case (Cons r rs)
  from Cons.prems obtain b where b: "add_resource a r = Inr b" and rest: "scan_resources b rs = Inr a'"
    by (auto simp: and_then_Inr_iff)
  have pp: "\<not> (profile_like r \<and> posts_like r)"
    by (auto simp: profile_like_def posts_like_def split: sum.splits pyval.splits)
  show ?case using Cons.IH [OF rest] add_resource_totals [OF b] pp
    by (auto split: if_splits)
qed

lemma getitem_dict_Inl: "is_dict v \<Longrightarrow> getitem v k = Inl e \<Longrightarrow> e = KeyError k"
  by (cases v) (auto simp: is_dict_def split: option.splits)

lemma has_key_iff: "has_key v k \<longleftrightarrow> (\<exists>x. getitem v k = Inr x)"
  by (auto simp: has_key_def split: sum.splits)

lemma scan_posts_complete:
  "scan_posts a ps = Inr a' \<Longrightarrow> list_all post_complete ps"
proof (induction ps arbitrary: a)
  case Nil
  then show ?case by simp
next
  case (Cons p ps)
  then show ?case
    by (auto simp: and_then_Inr_iff post_complete_def has_key_iff)
qed

lemma post_step_typed:
  assumes "post_typed p"
  shows "post_complete p \<Longrightarrow> \<exists>likes n. and_then (getitem p ''like_count'') int_py = Inr likes
            \<and> and_then (getitem p ''comments'') len = Inr n"
    and "\<not> post_complete p \<Longrightarrow>
           (getitem p ''like_count'' = Inl (KeyError ''like_count'')) \<or>
           ((\<exists>likes. and_then (getitem p ''like_count'') int_py = Inr likes) \<and>
             getitem p ''comments'' = Inl (KeyError ''comments''))"
  using assms
  by (auto simp: post_typed_def post_complete_def has_key_iff and_then_Inr_iff
      dest: getitem_dict_Inl split: sum.splits) (metis sum.collapse(2))+

lemma scan_posts_typed:
  assumes "list_all post_typed ps"
  shows "list_all post_complete ps \<Longrightarrow> \<exists>a'. scan_posts a ps = Inr a'"
    and "\<not> list_all post_complete ps \<Longrightarrow> \<exists>k. scan_posts a ps = Inl (KeyError k)"
  using assms
proof (induction ps arbitrary: a)
  case Nil
  { case 1 then show ?case by simp }
  { case 2 then show ?case by simp }
next
  case (Cons p ps)
  { case 1
    then have pt: "post_typed p" and pc: "post_complete p"
      and rest: "list_all post_typed ps" "list_all post_complete ps" by simp_all
    from post_step_typed(1) [OF pt pc] obtain lc likes cs n where
      "getitem p ''like_count'' = Inr lc" "int_py lc = Inr likes"
      "getitem p ''comments'' = Inr cs" "len cs = Inr n"
      by (auto simp: and_then_Inr_iff)
    then show ?case using Cons.IH(1) [OF rest(2) rest(1)] by simp }
  { case 2
    then have pt: "post_typed p" and rest: "list_all post_typed ps" by simp_all
    show ?case
    proof (cases "post_complete p")
      case True
      with 2 have nc: "\<not> list_all post_complete ps" by simp
      from post_step_typed(1) [OF pt True] obtain lc likes cs n where
        "getitem p ''like_count'' = Inr lc" "int_py lc = Inr likes"
        "getitem p ''comments'' = Inr cs" "len cs = Inr n"
        by (auto simp: and_then_Inr_iff)
      then show ?thesis using Cons.IH(2) [OF nc rest] by simp
    next
      case False
      from post_step_typed(2) [OF pt False] show ?thesis
        by (auto simp: and_then_Inr_iff)
    qed }
qed

lemma add_resource_complete:
  assumes "add_resource a r = Inr a'"
  shows "resource_complete r"
proof -
  from assms obtain t isp where t: "getitem r ''type'' = Inr t"
    and isp: "endswith t profile_suffix = Inr isp"
    by (auto simp: add_resource_def and_then_Inr_iff)
  from isp obtain s where s: "t = PStr s" "isp = ends_with s profile_suffix"
    by (cases t) auto
  have hk: "has_key r ''type''" by (simp add: has_key_iff t)
  show ?thesis
  proof (cases "ends_with s profile_suffix")
    case True
    then have pl: "profile_like r" by (simp add: profile_like_def t s)
    from assms True obtain d fc where "getitem r ''data'' = Inr d"
      "getitem d ''followers_count'' = Inr fc"
      by (auto simp: add_resource_def t s and_then_Inr_iff)
    then show ?thesis using pl hk by (simp add: resource_complete_def has_key_iff)
  next
    case False
    then have npl: "\<not> profile_like r" by (simp add: profile_like_def t s)
    show ?thesis
    proof (cases "ends_with s user_posts_suffix")
      case True
      then have pl: "posts_like r" using False by (simp add: posts_like_def t s)
      from assms True False obtain d ps posts where "getitem r ''data'' = Inr d"
        "getitem d ''posts'' = Inr ps" "iterate ps = Inr posts" "scan_posts a posts = Inr a'"
        by (auto simp: add_resource_def t s and_then_Inr_iff)
      then show ?thesis using pl npl hk scan_posts_complete [of a posts a']
        by (simp add: resource_complete_def has_key_iff posts_of_def)
    next
      case nposts: False
      then have "\<not> posts_like r" by (simp add: posts_like_def t s)
      then show ?thesis using npl hk by (simp add: resource_complete_def)
    qed
  qed
qed

lemma add_resource_typed:
  assumes rt: "resource_typed r"
  shows "resource_complete r \<Longrightarrow> \<exists>a'. add_resource a r = Inr a'"
    and "\<not> resource_complete r \<Longrightarrow> \<exists>k. add_resource a r = Inl (KeyError k)"
proof -
  from rt have dict: "is_dict r" by (simp add: resource_typed_def)
  have both: "(resource_complete r \<longrightarrow> (\<exists>a'. add_resource a r = Inr a')) \<and>
        (\<not> resource_complete r \<longrightarrow> (\<exists>k. add_resource a r = Inl (KeyError k)))"
  proof (cases "getitem r ''type''")
    case (Inl e)
    then have "e = KeyError ''type''" using dict by (rule getitem_dict_Inl [rotated])
    with Inl show ?thesis by (simp add: resource_complete_def has_key_def add_resource_def)
  next
    case (Inr t)
    with rt obtain s where s: "t = PStr s" by (cases t) (auto simp: resource_typed_def)
    have hk: "has_key r ''type''" by (simp add: has_key_iff Inr)
    show ?thesis
    proof (cases "ends_with s profile_suffix")
      case True
      then have pl: "profile_like r" by (simp add: profile_like_def Inr s)
      show ?thesis
      proof (cases "getitem r ''data''")
        case dInl: (Inl e)
        then have "e = KeyError ''data''" using dict by (rule getitem_dict_Inl [rotated])
        with dInl show ?thesis using pl True
          by (simp add: resource_complete_def add_resource_def Inr s)
      next
        case dInr: (Inr d)
        with rt True have dd: "is_dict d"
          and ft: "case getitem d ''followers_count'' of Inl _ \<Rightarrow> True | Inr f \<Rightarrow> \<not> isl (int_py f)"
          by (simp_all add: resource_typed_def Inr s)
        show ?thesis
        proof (cases "getitem d ''followers_count''")
          case fInl: (Inl e)
          then have "e = KeyError ''followers_count''" using dd by (rule getitem_dict_Inl [rotated])
          with fInl show ?thesis using pl True
            by (simp add: resource_complete_def add_resource_def Inr s dInr has_key_def)
        next
          case fInr: (Inr f)
          with ft obtain n where "int_py f = Inr n" by (cases "int_py f") auto
          then show ?thesis using pl True
            by (simp add: resource_complete_def add_resource_def Inr s dInr fInr has_key_def hk)
        qed
      qed
    next
      case False
      then have npl: "\<not> profile_like r" by (simp add: profile_like_def Inr s)
      show ?thesis
      proof (cases "ends_with s user_posts_suffix")
        case True
        then have pl: "posts_like r" using False by (simp add: posts_like_def Inr s)
        show ?thesis
        proof (cases "getitem r ''data''")
          case dInl: (Inl e)
          then have "e = KeyError ''data''" using dict by (rule getitem_dict_Inl [rotated])
          with dInl show ?thesis using pl npl True False
            by (simp add: resource_complete_def add_resource_def Inr s)
        next
          case dInr: (Inr d)
          with rt True False have dd: "is_dict d"
            and pt: "case getitem d ''posts'' of Inl _ \<Rightarrow> True
                     | Inr ps \<Rightarrow> (case ps of PList xs \<Rightarrow> list_all post_typed xs | _ \<Rightarrow> False)"
            by (simp_all add: resource_typed_def Inr s)
          show ?thesis
          proof (cases "getitem d ''posts''")
            case pInl: (Inl e)
            then have "e = KeyError ''posts''" using dd by (rule getitem_dict_Inl [rotated])
            with pInl show ?thesis using pl npl True False
              by (simp add: resource_complete_def add_resource_def Inr s dInr has_key_def)
          next
            case pInr: (Inr ps)
            with pt obtain xs where xs: "ps = PList xs" and typed: "list_all post_typed xs"
              by (cases ps) auto
            have po: "posts_of r = xs" by (simp add: posts_of_def dInr pInr xs)
            have ar: "add_resource a r = scan_posts a xs"
              using True False by (simp add: add_resource_def Inr s dInr pInr xs)
            have rc: "resource_complete r \<longleftrightarrow> list_all post_complete xs"
              using pl npl by (simp add: resource_complete_def dInr has_key_iff pInr po Inr)
            show ?thesis using scan_posts_typed [OF typed, of a] by (simp add: ar rc)
          qed
        qed
      next
        case nposts: False
        then have "\<not> posts_like r" by (simp add: posts_like_def Inr s)
        then show ?thesis using npl hk False nposts
          by (simp add: resource_complete_def add_resource_def Inr s)
      qed
    qed
  qed
  show "resource_complete r \<Longrightarrow> \<exists>a'. add_resource a r = Inr a'"
    and "\<not> resource_complete r \<Longrightarrow> \<exists>k. add_resource a r = Inl (KeyError k)"
    using both by blast+
qed

lemma scan_resources_complete:
  "scan_resources a rs = Inr a' \<Longrightarrow> list_all resource_complete rs"
  by (induction rs arbitrary: a) (auto simp: and_then_Inr_iff dest: add_resource_complete)

lemma scan_resources_typed:
  assumes "list_all resource_typed rs"
  shows "list_all resource_complete rs \<Longrightarrow> \<exists>a'. scan_resources a rs = Inr a'"
    and "\<not> list_all resource_complete rs \<Longrightarrow> \<exists>k. scan_resources a rs = Inl (KeyError k)"
  using assms
proof (induction rs arbitrary: a)
  case Nil
  { case 1 then show ?case by simp }
  { case 2 then show ?case by simp }
next
  case (Cons r rs)
  { case 1
    then have rt: "resource_typed r" and rc: "resource_complete r"
      and rest: "list_all resource_typed rs" "list_all resource_complete rs" by simp_all
    from add_resource_typed(1) [OF rt rc] obtain b where "add_resource a r = Inr b" by blast
    then show ?case using Cons.IH(1) [OF rest(2) rest(1)] by simp }
  { case 2
    then have rt: "resource_typed r" and rest: "list_all resource_typed rs" by simp_all
    show ?case
    proof (cases "resource_complete r")
      case True
      with 2 have nc: "\<not> list_all resource_complete rs" by simp
      from add_resource_typed(1) [OF rt True] obtain b where "add_resource a r = Inr b" by blast
      then show ?thesis using Cons.IH(2) [OF nc rest] by simp
    next
      case False
      from add_resource_typed(2) [OF rt False] obtain k where "add_resource a r = Inl (KeyError k)"
        by blast
      then show ?thesis by simp
    qed }
qed

lemma scan_balances_step:
  "scan_balances nw (b # bs) =
     and_then (symbol_of b) (\<lambda>s. if s = PStr ''APT'' then get_default b ''amount_in_usd'' (PInt 0)
                                  else scan_balances nw bs)"
  by (cases "getitem b ''metadata''") (simp_all add: symbol_of_def)

lemma symbol_of_Inr_dict: "symbol_of b = Inr s \<Longrightarrow> is_dict b"
  by (cases b) (auto simp: symbol_of_def is_dict_def)

lemma get_default_dict: "is_dict b \<Longrightarrow> get_default b k d = Inr (case get_default b k d of Inr v \<Rightarrow> v | Inl _ \<Rightarrow> d)"
  by (cases b) (auto simp: is_dict_def split: option.splits)

lemma apt_amount: "is_apt b \<Longrightarrow> get_default b ''amount_in_usd'' (PInt 0) = Inr (usd_amount b)"
  unfolding is_apt_def usd_amount_def
  by (drule symbol_of_Inr_dict) (rule get_default_dict)

lemma scan_balances_find:
  "\<forall>b\<in>set (takeWhile (\<lambda>b. \<not> is_apt b) bs). \<not> isl (symbol_of b) \<Longrightarrow>
     scan_balances nw bs = Inr (case find is_apt bs of None \<Rightarrow> nw | Some b \<Rightarrow> usd_amount b)"
proof (induction bs)
  case Nil
  then show ?case by simp
next
  case (Cons b bs)
  show ?case
  proof (cases "is_apt b")
    case True
    then have s: "symbol_of b = Inr (PStr ''APT'')" by (simp add: is_apt_def)
    show ?thesis using True
      by (simp add: scan_balances_step s apt_amount del: scan_balances.simps)
  next
    case False
    with Cons.prems obtain s where s: "symbol_of b = Inr s" by (cases "symbol_of b") auto
    with False have "s \<noteq> PStr ''APT''" by (simp add: is_apt_def)
    moreover from Cons.prems False
    have "\<forall>b\<in>set (takeWhile (\<lambda>b. \<not> is_apt b) bs). \<not> isl (symbol_of b)" by simp
    ultimately show ?thesis using Cons.IH False by (simp add: scan_balances_step s del: scan_balances.simps)
  qed
qed

lemma balance_complete_iff: "balance_complete b \<longleftrightarrow> (\<exists>s. symbol_of b = Inr s)"
  by (auto simp: balance_complete_def symbol_of_def has_key_iff and_then_Inr_iff split: sum.splits)

lemma scan_balances_complete:
  "scan_balances nw bs = Inr v \<Longrightarrow> list_all balance_complete (scanned bs)"
proof (induction bs)
  case Nil
  then show ?case by simp
next
  case (Cons b bs)
  from Cons.prems obtain s where s: "symbol_of b = Inr s"
    by (auto simp: scan_balances_step and_then_Inr_iff simp del: scan_balances.simps)
  then have bc: "balance_complete b" by (auto simp: balance_complete_iff)
  show ?case
  proof (cases "is_apt b")
    case True
    then show ?thesis using bc by simp
  next
    case False
    with s have "s \<noteq> PStr ''APT''" by (simp add: is_apt_def)
    with Cons.prems s have "scan_balances nw bs = Inr v"
      by (simp add: scan_balances_step del: scan_balances.simps)
    then show ?thesis using Cons.IH bc False by simp
  qed
qed

lemma balance_typed_incomplete:
  assumes "balance_typed b" "\<not> balance_complete b"
  shows "\<exists>k. symbol_of b = Inl (KeyError k)"
proof (cases "getitem b ''metadata''")
  case (Inl e)
  with assms(1) have "e = KeyError ''metadata''"
    by (auto simp: balance_typed_def dest: getitem_dict_Inl)
  with Inl show ?thesis by (simp add: symbol_of_def)
next
  case (Inr m)
  with assms(1) have md: "is_dict m" by (simp add: balance_typed_def)
  from assms(2) Inr obtain e where e: "getitem m ''symbol'' = Inl e"
    by (cases "getitem m ''symbol''") (auto simp: balance_complete_def has_key_def)
  with md have "e = KeyError ''symbol''" by (auto dest: getitem_dict_Inl)
  with e Inr show ?thesis by (simp add: symbol_of_def)
qed

lemma scan_balances_typed:
  assumes "list_all balance_typed (scanned bs)"
  shows "list_all balance_complete (scanned bs) \<Longrightarrow> \<exists>v. scan_balances nw bs = Inr v"
    and "\<not> list_all balance_complete (scanned bs) \<Longrightarrow> \<exists>k. scan_balances nw bs = Inl (KeyError k)"
  using assms
proof (induction bs)
  case Nil
  { case 1 then show ?case by simp }
  { case 2 then show ?case by simp }
next
  case (Cons b bs)
  { case 1
    then obtain s where s: "symbol_of b = Inr s"
      by (auto simp: balance_complete_iff split: if_splits)
    show ?case
    proof (cases "is_apt b")
      case True
      then have s': "symbol_of b = Inr (PStr ''APT'')" by (simp add: is_apt_def)
      show ?thesis using True
        by (simp add: scan_balances_step s' apt_amount del: scan_balances.simps)
    next
      case False
      with s have ns: "s \<noteq> PStr ''APT''" by (simp add: is_apt_def)
      from 1 False have "list_all balance_complete (scanned bs)" "list_all balance_typed (scanned bs)"
        by simp_all
      from Cons.IH(1) [OF this] show ?thesis
        by (simp add: scan_balances_step s ns del: scan_balances.simps)
    qed }
  { case 2
    show ?case
    proof (cases "balance_complete b")
      case True
      then obtain s where s: "symbol_of b = Inr s" by (auto simp: balance_complete_iff)
      from True 2 have na: "\<not> is_apt b" by (auto split: if_splits)
      with s have ns: "s \<noteq> PStr ''APT''" by (simp add: is_apt_def)
      from 2 na True have "\<not> list_all balance_complete (scanned bs)" "list_all balance_typed (scanned bs)"
        by simp_all
      from Cons.IH(2) [OF this] show ?thesis
        by (simp add: scan_balances_step s ns del: scan_balances.simps)
    next
      case False
      from 2 have "balance_typed b" by (auto split: if_splits)
      from balance_typed_incomplete [OF this False] show ?thesis
        by (auto simp: scan_balances_step simp del: scan_balances.simps)
    qed }
qed

lemma aggregate_posts_complete:
  "aggregate_posts p = Inr agg \<Longrightarrow> user_posts_complete p"
  by (auto simp: aggregate_posts_def and_then_Inr_iff user_posts_complete_def has_key_iff
      resources_of_def dest: scan_resources_complete)

lemma aggregate_posts_typed:
  assumes "user_posts_typed p"
  shows "user_posts_complete p \<Longrightarrow> \<exists>agg. aggregate_posts p = Inr agg"
    and "\<not> user_posts_complete p \<Longrightarrow> \<exists>k. aggregate_posts p = Inl (KeyError k)"
proof -
  from assms have dict: "is_dict p" by (simp add: user_posts_typed_def)
  have "(user_posts_complete p \<longrightarrow> (\<exists>agg. aggregate_posts p = Inr agg)) \<and>
        (\<not> user_posts_complete p \<longrightarrow> (\<exists>k. aggregate_posts p = Inl (KeyError k)))"
  proof (cases "getitem p ''resources''")
    case (Inl e)
    with dict have "e = KeyError ''resources''" by (auto dest: getitem_dict_Inl)
    with Inl show ?thesis by (simp add: aggregate_posts_def user_posts_complete_def has_key_def)
  next
    case (Inr res)
    with assms obtain rs where rs: "res = PList rs" and typed: "list_all resource_typed rs"
      by (cases res) (auto simp: user_posts_typed_def)
    have "user_posts_complete p \<longleftrightarrow> list_all resource_complete rs"
      by (simp add: user_posts_complete_def has_key_iff Inr rs resources_of_def)
    then show ?thesis using scan_resources_typed [OF typed]
      by (simp add: aggregate_posts_def Inr rs)
  qed
  then show "user_posts_complete p \<Longrightarrow> \<exists>agg. aggregate_posts p = Inr agg"
    and "\<not> user_posts_complete p \<Longrightarrow> \<exists>k. aggregate_posts p = Inl (KeyError k)" by blast+
qed

lemma onchain_net_worth_complete:
  "onchain_net_worth cb = Inr nw \<Longrightarrow> coin_balances_complete cb"
  by (auto simp: onchain_net_worth_def and_then_Inr_iff coin_balances_complete_def has_key_iff
      balances_of_def dest: scan_balances_complete)

lemma onchain_net_worth_typed:
  assumes "coin_balances_typed cb"
  shows "coin_balances_complete cb \<Longrightarrow> \<exists>nw. onchain_net_worth cb = Inr nw"
    and "\<not> coin_balances_complete cb \<Longrightarrow> \<exists>k. onchain_net_worth cb = Inl (KeyError k)"
proof -
  from assms have dict: "is_dict cb" by (simp add: coin_balances_typed_def)
  have "(coin_balances_complete cb \<longrightarrow> (\<exists>nw. onchain_net_worth cb = Inr nw)) \<and>
        (\<not> coin_balances_complete cb \<longrightarrow> (\<exists>k. onchain_net_worth cb = Inl (KeyError k)))"
  proof (cases "getitem cb ''latest_balances''")
    case (Inl e)
    with dict have "e = KeyError ''latest_balances''" by (auto dest: getitem_dict_Inl)
    with Inl show ?thesis by (simp add: onchain_net_worth_def coin_balances_complete_def has_key_def)
  next
    case (Inr res)
    with assms obtain bs where bs: "res = PList bs" and typed: "list_all balance_typed (scanned bs)"
      by (cases res) (auto simp: coin_balances_typed_def)
    have "coin_balances_complete cb \<longleftrightarrow> list_all balance_complete (scanned bs)"
      by (simp add: coin_balances_complete_def has_key_iff Inr bs balances_of_def)
    then show ?thesis using scan_balances_typed [OF typed]
      by (simp add: onchain_net_worth_def Inr bs)
  qed
  then show "coin_balances_complete cb \<Longrightarrow> \<exists>nw. onchain_net_worth cb = Inr nw"
    and "\<not> coin_balances_complete cb \<Longrightarrow> \<exists>k. onchain_net_worth cb = Inl (KeyError k)" by blast+
qed

lemma getitem_no_http: "getitem v k \<noteq> Inl (HTTPStatusError s)"
  by (cases v) (auto split: option.splits)

lemma endswith_no_http: "endswith v x \<noteq> Inl (HTTPStatusError s)"
  by (cases v) auto

lemma iterate_no_http: "iterate v \<noteq> Inl (HTTPStatusError s)"
  by (cases v) auto

lemma len_no_http: "len v \<noteq> Inl (HTTPStatusError s)"
  by (cases v) auto

lemma int_py_no_http: "int_py v \<noteq> Inl (HTTPStatusError s)"
  by (cases v) (auto split: option.splits)

lemma get_default_no_http: "get_default v k d \<noteq> Inl (HTTPStatusError s)"
  by (cases v) (auto split: option.splits)

lemmas no_http = getitem_no_http endswith_no_http iterate_no_http len_no_http int_py_no_http
  get_default_no_http

lemma scan_posts_no_http: "scan_posts a ps \<noteq> Inl (HTTPStatusError s)"
  by (induction ps arbitrary: a) (auto simp: and_then_Inl_iff no_http)

lemma add_resource_no_http: "add_resource a r \<noteq> Inl (HTTPStatusError s)"
  by (auto simp: add_resource_def and_then_Inl_iff no_http scan_posts_no_http split: if_splits)

lemma scan_resources_no_http: "scan_resources a rs \<noteq> Inl (HTTPStatusError s)"
  by (induction rs arbitrary: a) (auto simp: and_then_Inl_iff add_resource_no_http)

lemma aggregate_posts_no_http: "aggregate_posts p \<noteq> Inl (HTTPStatusError s)"
  by (auto simp: aggregate_posts_def and_then_Inl_iff no_http scan_resources_no_http)

lemma scan_balances_no_http: "scan_balances nw bs \<noteq> Inl (HTTPStatusError s)"
  by (induction bs) (auto simp: and_then_Inl_iff no_http split: if_splits)

lemma onchain_net_worth_no_http: "onchain_net_worth cb \<noteq> Inl (HTTPStatusError s)"
  by (auto simp: onchain_net_worth_def and_then_Inl_iff no_http scan_balances_no_http)

lemma translate_500: "(\<And>s. e \<noteq> HTTPStatusError s) \<Longrightarrow> \<exists>d. translate e = HTTPException 500 d"
  by (cases e) auto

lemma bit_length_small:
  "bit_length 0 = 0" "bit_length 1 = 1" "bit_length 2 = 2" "bit_length 8 = 4" "bit_length 15 = 4"
proof -
  show b0: "bit_length 0 = 0" by (simp add: bit_length.simps [of 0])
  show b1: "bit_length 1 = 1" by (simp add: bit_length.simps [of 1] b0)
  show b2: "bit_length 2 = 2" by (simp add: bit_length.simps [of 2] b1)
  have b3: "bit_length 3 = 2" by (simp add: bit_length.simps [of 3] b1)
  have b4: "bit_length 4 = 3" by (simp add: bit_length.simps [of 4] b2)
  have b7: "bit_length 7 = 3" by (simp add: bit_length.simps [of 7] b3)
  show "bit_length 8 = 4" by (simp add: bit_length.simps [of 8] b4)
  show "bit_length 15 = 4" by (simp add: bit_length.simps [of 15] b7)
qed

lemma to_float_small:
  "to_float 1 = Some 1" "to_float 2 = Some 2" "to_float 8 = Some 8" "to_float 15 = Some 15"
  by (simp_all add: to_float_def exponent_def pow2_def round_half_even_def Let_def
      bit_length_small)

lemma endpoint_fetch_posts_error:
  "fetch_user_posts net address tr = (Inl e, tr1) \<Longrightarrow>
     calculate_berries_endpoint net cm im address tr = (Inl (translate e), tr1)"
  by (simp add: calculate_berries_endpoint_def endpoint_try_def io_bind_def)

lemma endpoint_aggregate_error:
  "fetch_user_posts net address tr = (Inr p, tr1) \<Longrightarrow> aggregate_posts p = Inl e \<Longrightarrow>
     calculate_berries_endpoint net cm im address tr = (Inl (translate e), tr1)"
  by (simp add: calculate_berries_endpoint_def endpoint_try_def io_bind_def io_pure_def)

lemma endpoint_average_error:
  assumes "fetch_user_posts net address tr = (Inr p, tr1)" "aggregate_posts p = Inr agg"
    "average_likes_per_day agg = Inl e \<or>
     (\<exists>al. average_likes_per_day agg = Inr al) \<and> average_comments_per_day agg = Inl e"
  shows "calculate_berries_endpoint net cm im address tr = (Inl (translate e), tr1)"
  using assms
  by (auto simp add: calculate_berries_endpoint_def endpoint_try_def io_bind_def io_pure_def)

lemma endpoint_fetch_balances_error:
  assumes "fetch_user_posts net address tr = (Inr p, tr1)" "aggregate_posts p = Inr agg"
    "average_likes_per_day agg = Inr al" "average_comments_per_day agg = Inr ac"
    "fetch_coin_balances net address tr1 = (Inl e, tr2)"
  shows "calculate_berries_endpoint net cm im address tr = (Inl (translate e), tr2)"
  using assms
  by (simp add: calculate_berries_endpoint_def endpoint_try_def io_bind_def io_pure_def)

lemma endpoint_net_worth_error:
  assumes "fetch_user_posts net address tr = (Inr p, tr1)" "aggregate_posts p = Inr agg"
    "average_likes_per_day agg = Inr al" "average_comments_per_day agg = Inr ac"
    "fetch_coin_balances net address tr1 = (Inr cb, tr2)" "onchain_net_worth cb = Inl e"
  shows "calculate_berries_endpoint net cm im address tr = (Inl (translate e), tr2)"
  using assms
  by (simp add: calculate_berries_endpoint_def endpoint_try_def io_bind_def io_pure_def)

lemma berries_features_dict:
  "berries_features
     (PDict [(''followers'', f), (''likes'', l), (''comments'', c),
             (''ads_purchased_from_profile'', ads), (''average_likes_per_day'', al),
             (''average_comments_per_day'', ac), (''credibility_weight'', cw)])
   = Inr [[f, l, c, ads, al, ac, cw]]"
  by (simp add: berries_features_def)

lemma calculate_berries_trace:
  "berries_features input_data = Inr features \<Longrightarrow>
     snd (calculate_berries im input_data tr) = tr @ [Predict Influencer features]"
  by (simp add: calculate_berries_def io_bind_def io_pure_def)

lemma endpoint_inference:
  assumes "fetch_user_posts net address tr = (Inr p, tr1)" "aggregate_posts p = Inr agg"
    "average_likes_per_day agg = Inr al" "average_comments_per_day agg = Inr ac"
    "fetch_coin_balances net address tr1 = (Inr cb, tr2)" "onchain_net_worth cb = Inr nw"
  shows "calculate_berries_endpoint net cm im address tr =
     (case calculate_credibility_weight cm nw (PInt 5000) tr2 of
        (Inl e, tr3) \<Rightarrow> (Inl (translate e), tr3)
      | (Inr cw, tr3) \<Rightarrow>
          (case calculate_berries im
                  (PDict [(''followers'', PInt (total_followers agg)),
                          (''likes'', PInt (total_likes agg)),
                          (''comments'', PInt (total_comments agg)),
                          (''ads_purchased_from_profile'', PInt 10),
                          (''average_likes_per_day'', al),
                          (''average_comments_per_day'', ac),
                          (''credibility_weight'', PFloat cw)]) tr3 of
             (Inl e, tr4) \<Rightarrow> (Inl (translate e), tr4)
           | (Inr b, tr4) \<Rightarrow> (Inr \<lparr>credibility_weight = cw, berries = b\<rparr>, tr4)))"
  using assms
  by (simp add: calculate_berries_endpoint_def endpoint_try_def io_bind_def io_pure_def
      split: prod.splits sum.splits)

lemma fetch_user_posts_status:
  "net tr (user_posts_request address) = Inr r \<Longrightarrow> \<not> is_success (status_code r) \<Longrightarrow>
     fetch_user_posts net address tr =
       (Inl (HTTPStatusError (status_code r)), tr @ [Get (user_posts_request address)])"
  by (simp add: fetch_user_posts_def raise_for_status_def)

lemma fetch_coin_balances_status:
  "net tr (coin_balances_request address) = Inr r \<Longrightarrow> \<not> is_success (status_code r) \<Longrightarrow>
     fetch_coin_balances net address tr =
       (Inl (HTTPStatusError (status_code r)), tr @ [Get (coin_balances_request address)])"
  by (simp add: fetch_coin_balances_def raise_for_status_def)

lemmas fixture_defs = profile_resource_def post_def posts_resource_def user_posts_payload_def
  balance_def balance_without_amount_def coin_balances_payload_def ok_def status_def
  stub_network_def stub_predictor_def

lemmas eval_defs = aggregate_posts_def add_resource_def onchain_net_worth_def
  profile_suffix_def user_posts_suffix_def ends_with_def
  average_likes_per_day_def average_comments_per_day_def truediv_def to_float_small
  fetch_user_posts_def fetch_coin_balances_def raise_for_status_def is_success_def json_def
  user_posts_request_def coin_balances_request_def
  calculate_credibility_weight_def calculate_berries_def berries_features_def
  endpoint_try_def calculate_berries_endpoint_def io_bind_def io_pure_def

lemma onchain_net_worth_find:
  assumes "getitem coin_balances ''latest_balances'' = Inr bs"
    and "iterate bs = Inr balances"
    and "\<forall>b\<in>set (takeWhile (\<lambda>b. \<not> is_apt b) balances). \<not> isl (symbol_of b)"
  shows "onchain_net_worth coin_balances =
           Inr (case find is_apt balances of None \<Rightarrow> PInt 0 | Some b \<Rightarrow> usd_amount b)"
  using assms scan_balances_find [of balances "PInt 0"]
  by (simp add: onchain_net_worth_def)

lemmas balance_eval = symbol_of_def is_apt_def usd_amount_def

lemma scan_resources_is_totals:
  assumes "scan_resources
     \<lparr>total_followers = 0, total_likes = 0, total_comments = 0, total_posts = 0\<rparr> rs = Inr agg"
  shows "agg = resource_totals rs"
  using scan_resources_totals [OF assms] by (simp add: resource_totals_def)

lemma aggregate_posts_is_totals:
  "aggregate_posts p = Inr agg \<Longrightarrow> agg = resource_totals (resources_of p)"
  by (auto simp: aggregate_posts_def and_then_Inr_iff resources_of_def
      dest: scan_resources_is_totals)

lemma calculate_credibility_weight_first_scalar:
  "calculate_credibility_weight cm nw fof tr
     = (and_then (cm [[nw, fof]]) first_scalar, tr @ [Predict Credibility [[nw, fof]]])"
  by (simp add: calculate_credibility_weight_def first_scalar_def and_then_def split: sum.splits)

lemma calculate_berries_first_scalar:
  "berries_features input_data = Inr features \<Longrightarrow>
     calculate_berries im input_data tr
       = (and_then (im features) first_scalar, tr @ [Predict Influencer features])"
  by (simp add: calculate_berries_def io_bind_def io_pure_def first_scalar_def and_then_def
      split: sum.splits)

lemmas shape_defs = user_posts_typed_def user_posts_complete_def resources_of_def
  resource_typed_def resource_complete_def post_typed_def post_complete_def
  coin_balances_typed_def coin_balances_complete_def balances_of_def
  balance_typed_def balance_complete_def has_key_def is_dict_def
  profile_like_def posts_like_def posts_of_def symbol_of_def is_apt_def

lemmas totals_defs = resource_totals_def follower_count_def like_count_def comment_count_def
  profile_like_def posts_like_def posts_of_def

section \<open>The claims\<close>

subsection \<open>C1: followers of several profile resources\<close>

text \<open>
  C1 as stated (the total followers are the follower count of the last profile-like
  resource) fails: the loop adds each count to the total. With two profile resources of
  100 and 20 followers the total is 120, and the last count is 20.
\<close>

theorem last_profile_does_not_win:
  "aggregate_posts (user_posts_payload [profile_resource (PInt 100), profile_resource (PInt 20)])
     = Inr \<lparr>total_followers = 120, total_likes = 0, total_comments = 0, total_posts = 0\<rparr>
   \<and> follower_count
         (last (filter profile_like [profile_resource (PInt 100), profile_resource (PInt 20)]))
       = 20"
  by (simp add: fixture_defs eval_defs profile_like_def follower_count_def)

text \<open>
  C1, amended: whenever the aggregation of a user-posts payload succeeds, the total
  followers are the sum of the follower counts of all the profile-like resources of the
  payload, in whatever number they come.
\<close>

theorem total_followers_is_the_sum:
  assumes "getitem user_posts_data ''resources'' = Inr res"
    and "iterate res = Inr resources"
    and "aggregate_posts user_posts_data = Inr agg"
  shows "total_followers agg = sum_list (map follower_count (filter profile_like resources))"
  using assms scan_resources_totals [of _ resources agg]
  by (simp add: aggregate_posts_def)

theorem total_followers_is_the_sum_witness:
  "aggregate_posts (user_posts_payload [profile_resource (PInt 100), profile_resource (PStr ''20'')])
     = Inr \<lparr>total_followers = 120, total_likes = 0, total_comments = 0, total_posts = 0\<rparr>
   \<and> sum_list (map follower_count
         (filter profile_like [profile_resource (PInt 100), profile_resource (PStr ''20'')])) = 120"
proof -
  let ?rs = "[profile_resource (PInt 100), profile_resource (PStr ''20'')]"
  let ?agg = "\<lparr>total_followers = 120, total_likes = 0, total_comments = 0, total_posts = 0\<rparr>"
  have h1: "getitem (user_posts_payload ?rs) ''resources'' = Inr (PList ?rs)"
    by (simp add: user_posts_payload_def)
  have h2: "iterate (PList ?rs) = Inr ?rs" by simp
  have h3: "aggregate_posts (user_posts_payload ?rs) = Inr ?agg"
    by (simp add: fixture_defs eval_defs int_of_str_def parse_number_def max_str_digits_def strip_def is_space_def is_digit_def
        digit_value_def)
  from total_followers_is_the_sum [OF h1 h2 h3] h3 show ?thesis by simp
qed

subsection \<open>C2: the net worth is the first APT entry\<close>

text \<open>
  C2: for every balances payload whose entries before the first APT entry carry a symbol
  (all of them, when there is no APT entry), the net worth is the USD amount of the first
  entry in iteration order whose symbol is APT, 0 when that entry has no amount, and 0 when
  no entry has the symbol APT. Nothing is asked of the entries after the first match, which
  the scan does not reach.
\<close>

theorem first_apt_entry_is_the_net_worth:
  assumes "getitem coin_balances ''latest_balances'' = Inr bs"
    and "iterate bs = Inr balances"
    and "\<forall>b\<in>set (takeWhile (\<lambda>b. \<not> is_apt b) balances). \<not> isl (symbol_of b)"
  shows "onchain_net_worth coin_balances =
           Inr (case find is_apt balances of None \<Rightarrow> PInt 0 | Some b \<Rightarrow> usd_amount b)"
  using assms by (rule onchain_net_worth_find)

theorem first_apt_entry_is_the_net_worth_witness:
  "onchain_net_worth
     (coin_balances_payload
        [balance ''USDC'' (PInt 3), balance ''APT'' (PInt 500), PNone, balance ''APT'' (PInt 900)])
     = Inr (PInt 500)
   \<and> onchain_net_worth (coin_balances_payload [balance ''USDC'' (PInt 3)]) = Inr (PInt 0)"
proof -
  let ?bs = "[balance ''USDC'' (PInt 3), balance ''APT'' (PInt 500), PNone,
              balance ''APT'' (PInt 900)]"
  let ?cs = "[balance ''USDC'' (PInt 3)]"
  have a1: "getitem (coin_balances_payload ?bs) ''latest_balances'' = Inr (PList ?bs)"
    by (simp add: coin_balances_payload_def)
  have a2: "iterate (PList ?bs) = Inr ?bs" by simp
  have a3: "\<forall>b\<in>set (takeWhile (\<lambda>b. \<not> is_apt b) ?bs). \<not> isl (symbol_of b)"
    by (simp add: balance_eval fixture_defs)
  have b1: "getitem (coin_balances_payload ?cs) ''latest_balances'' = Inr (PList ?cs)"
    by (simp add: coin_balances_payload_def)
  have b2: "iterate (PList ?cs) = Inr ?cs" by simp
  have b3: "\<forall>b\<in>set (takeWhile (\<lambda>b. \<not> is_apt b) ?cs). \<not> isl (symbol_of b)"
    by (simp add: balance_eval fixture_defs)
  from first_apt_entry_is_the_net_worth [OF a1 a2 a3]
    first_apt_entry_is_the_net_worth [OF b1 b2 b3]
  show ?thesis by (simp add: balance_eval fixture_defs)
qed

subsection \<open>C3: no posts\<close>

text \<open>
  C3: for every user-posts payload whose aggregated post counter is 0, both averages are
  exactly 0 (the int 0 of the \<^verbatim>\<open>else\<close> branch), and no division is evaluated, so
  neither is a ZeroDivisionError.
\<close>

theorem zero_posts_zero_averages:
  assumes "aggregate_posts user_posts_data = Inr agg" and "total_posts agg = 0"
  shows "average_likes_per_day agg = Inr (PInt 0) \<and> average_comments_per_day agg = Inr (PInt 0)"
  using assms(2) by (simp add: average_likes_per_day_def average_comments_per_day_def)

theorem zero_posts_zero_averages_witness:
  "aggregate_posts (user_posts_payload [profile_resource (PInt 7), posts_resource []])
     = Inr \<lparr>total_followers = 7, total_likes = 0, total_comments = 0, total_posts = 0\<rparr>
   \<and> average_likes_per_day
         \<lparr>total_followers = 7, total_likes = 0, total_comments = 0, total_posts = 0\<rparr> = Inr (PInt 0)
   \<and> average_comments_per_day
         \<lparr>total_followers = 7, total_likes = 0, total_comments = 0, total_posts = 0\<rparr> = Inr (PInt 0)"
proof -
  let ?agg = "\<lparr>total_followers = 7, total_likes = 0, total_comments = 0, total_posts = 0\<rparr>"
  have h1: "aggregate_posts (user_posts_payload [profile_resource (PInt 7), posts_resource []])
     = Inr ?agg"
    by (simp add: fixture_defs eval_defs)
  have h2: "total_posts ?agg = 0" by simp
  from zero_posts_zero_averages [OF h1 h2] h1 show ?thesis by simp
qed

subsection \<open>C4: the credibility weight is the seventh feature\<close>

text \<open>
  C4: in every request that reaches inference, when the credibility predictor yields the
  scalar V, the credibility prediction is asked for first, and the influencer predictor is
  then given the single row [followers, likes, comments, 10, average likes per day,
  average comments per day, V].
\<close>

theorem credibility_weight_is_seventh_feature:
  assumes "fetch_user_posts net address tr = (Inr user_posts_data, tr1)"
    and "aggregate_posts user_posts_data = Inr agg"
    and "average_likes_per_day agg = Inr avg_likes"
    and "average_comments_per_day agg = Inr avg_comments"
    and "fetch_coin_balances net address tr1 = (Inr coin_balances, tr2)"
    and "onchain_net_worth coin_balances = Inr net_worth"
    and "and_then (credibility_model [[net_worth, PInt 5000]]) first_scalar = Inr V"
  shows "snd (calculate_berries_endpoint net credibility_model influencer_model address tr)
       = tr2 @ [Predict Credibility [[net_worth, PInt 5000]],
                Predict Influencer
                  [[PInt (total_followers agg), PInt (total_likes agg), PInt (total_comments agg),
                    PInt 10, avg_likes, avg_comments, PFloat V]]]"
proof -
  have cw: "calculate_credibility_weight credibility_model net_worth (PInt 5000) tr2
      = (Inr V, tr2 @ [Predict Credibility [[net_worth, PInt 5000]]])"
    using assms(7) by (simp add: calculate_credibility_weight_def first_scalar_def and_then_def
        split: sum.splits)
  show ?thesis
    by (simp add: endpoint_inference [OF assms(1-6)] cw calculate_berries_def io_bind_def
        io_pure_def berries_features_dict split: sum.splits)
qed

theorem credibility_weight_is_seventh_feature_witness:
  "snd (calculate_berries_endpoint
     (stub_network ''0xA''
        (ok (user_posts_payload
               [profile_resource (PInt 120),
                posts_resource [post (PInt 10) [PNone, PNone, PNone], post (PInt 20) [PNone]]]))
        (ok (coin_balances_payload [balance ''APT'' (PInt 500)])))
     (stub_predictor (Nd1 [3 / 4])) (stub_predictor (Nd2 [[42]])) ''0xA'' [])
   = [Get (user_posts_request ''0xA''), Get (coin_balances_request ''0xA''),
      Predict Credibility [[PInt 500, PInt 5000]],
      Predict Influencer
        [[PInt 120, PInt 30, PInt 4, PInt 10, PFloat 15, PFloat 2, PFloat (3 / 4)]]]"
proof -
  let ?posts = "user_posts_payload
               [profile_resource (PInt 120),
                posts_resource [post (PInt 10) [PNone, PNone, PNone], post (PInt 20) [PNone]]]"
  let ?balances = "coin_balances_payload [balance ''APT'' (PInt 500)]"
  let ?net = "stub_network ''0xA'' (ok ?posts) (ok ?balances)"
  let ?agg = "\<lparr>total_followers = 120, total_likes = 30, total_comments = 4, total_posts = 2\<rparr>"
  have h1: "fetch_user_posts ?net ''0xA'' [] = (Inr ?posts, [Get (user_posts_request ''0xA'')])"
    by (simp add: fetch_user_posts_def stub_network_def ok_def raise_for_status_def
        is_success_def json_def)
  have h2: "aggregate_posts ?posts = Inr ?agg" by (simp add: fixture_defs eval_defs)
  have h3: "average_likes_per_day ?agg = Inr (PFloat 15)"
    by (simp add: average_likes_per_day_def truediv_def to_float_small)
  have h4: "average_comments_per_day ?agg = Inr (PFloat 2)"
    by (simp add: average_comments_per_day_def truediv_def to_float_small)
  have h5: "fetch_coin_balances ?net ''0xA'' [Get (user_posts_request ''0xA'')]
      = (Inr ?balances, [Get (user_posts_request ''0xA''), Get (coin_balances_request ''0xA'')])"
    by (simp add: fetch_coin_balances_def stub_network_def ok_def raise_for_status_def
        is_success_def json_def user_posts_request_def coin_balances_request_def)
  have h6: "onchain_net_worth ?balances = Inr (PInt 500)" by (simp add: fixture_defs eval_defs)
  have h7: "and_then (stub_predictor (Nd1 [3 / 4]) [[PInt 500, PInt 5000]]) first_scalar
      = Inr (3 / 4)"
    by (simp add: stub_predictor_def first_scalar_def)
  from credibility_weight_is_seventh_feature
      [where credibility_model = "stub_predictor (Nd1 [3 / 4])"
         and influencer_model = "stub_predictor (Nd2 [[42]])", OF h1 h2 h3 h4 h5 h6 h7]
  show ?thesis by simp
qed

subsection \<open>C5: one-by-one and one-element predictions\<close>

text \<open>
  C5: in each of the two wrappers, a predictor returning the 2-D array [[v]] and a
  predictor returning the 1-D array [v] yield the same scalar, v.
\<close>

theorem one_by_one_prediction_reduces_like_one_element:
  assumes "credibility_2d [[net_worth, followers_of_followers]] = Inr (Nd2 [[v]])"
    and "credibility_1d [[net_worth, followers_of_followers]] = Inr (Nd1 [v])"
    and "berries_features input_data = Inr features"
    and "influencer_2d features = Inr (Nd2 [[w]])"
    and "influencer_1d features = Inr (Nd1 [w])"
  shows "fst (calculate_credibility_weight credibility_2d net_worth followers_of_followers tr) = Inr v
       \<and> fst (calculate_credibility_weight credibility_1d net_worth followers_of_followers tr) = Inr v
       \<and> fst (calculate_berries influencer_2d input_data tr) = Inr w
       \<and> fst (calculate_berries influencer_1d input_data tr) = Inr w"
  using assms
  by (simp add: calculate_credibility_weight_def calculate_berries_def io_bind_def io_pure_def)

theorem one_by_one_prediction_reduces_like_one_element_witness:
  "fst (calculate_credibility_weight (stub_predictor (Nd2 [[3 / 4]])) (PInt 500) (PInt 5000) [])
     = Inr (3 / 4)
   \<and> fst (calculate_credibility_weight (stub_predictor (Nd1 [3 / 4])) (PInt 500) (PInt 5000) [])
     = Inr (3 / 4)
   \<and> fst (calculate_berries (stub_predictor (Nd2 [[42]]))
        (PDict [(''followers'', PInt 120), (''likes'', PInt 30), (''comments'', PInt 4),
                (''ads_purchased_from_profile'', PInt 10), (''average_likes_per_day'', PFloat 15),
                (''average_comments_per_day'', PFloat 2), (''credibility_weight'', PFloat (3 / 4))])
        []) = Inr 42
   \<and> fst (calculate_berries (stub_predictor (Nd1 [42]))
        (PDict [(''followers'', PInt 120), (''likes'', PInt 30), (''comments'', PInt 4),
                (''ads_purchased_from_profile'', PInt 10), (''average_likes_per_day'', PFloat 15),
                (''average_comments_per_day'', PFloat 2), (''credibility_weight'', PFloat (3 / 4))])
        []) = Inr 42"
proof -
  have h1: "stub_predictor (Nd2 [[3 / 4]]) [[PInt 500, PInt 5000]] = Inr (Nd2 [[3 / 4]])"
    and h2: "stub_predictor (Nd1 [3 / 4]) [[PInt 500, PInt 5000]] = Inr (Nd1 [3 / 4])"
    and h4: "stub_predictor (Nd2 [[42]])
               [[PInt 120, PInt 30, PInt 4, PInt 10, PFloat 15, PFloat 2, PFloat (3 / 4)]]
             = Inr (Nd2 [[42]])"
    and h5: "stub_predictor (Nd1 [42])
               [[PInt 120, PInt 30, PInt 4, PInt 10, PFloat 15, PFloat 2, PFloat (3 / 4)]]
             = Inr (Nd1 [42])"
    by (simp_all add: stub_predictor_def)
  note h3 = berries_features_dict [of "PInt 120" "PInt 30" "PInt 4" "PInt 10" "PFloat 15"
      "PFloat 2" "PFloat (3 / 4)"]
  show ?thesis
    by (rule one_by_one_prediction_reduces_like_one_element
        [where credibility_2d = "stub_predictor (Nd2 [[3 / 4]])"
           and credibility_1d = "stub_predictor (Nd1 [3 / 4])"
           and influencer_2d = "stub_predictor (Nd2 [[42]])"
           and influencer_1d = "stub_predictor (Nd1 [42])" and tr = "[]",
         OF h1 h2 h3 h4 h5])
qed

subsection \<open>C6: a failing upstream\<close>

text \<open>
  C6: when the user-posts fetch is answered with a status outside 200..299, and when the
  balances fetch is (it takes place once the user posts are fetched and aggregated and the
  two averages computed), the endpoint answers with an HTTP error of that same status and
  never with a success; the trace holds one request per fetch made, so nothing is retried,
  and no prediction.
\<close>

theorem upstream_status_is_surfaced:
  "(net tr (user_posts_request address) = Inr r \<and> \<not> is_success (status_code r) \<longrightarrow>
      calculate_berries_endpoint net credibility_model influencer_model address tr
        = (Inl (HTTPException (status_code r)
                 (Error_fetching_external_data (HTTPStatusError (status_code r)))),
           tr @ [Get (user_posts_request address)]))
   \<and> (fetch_user_posts net address tr = (Inr user_posts_data, tr1)
        \<and> aggregate_posts user_posts_data = Inr agg
        \<and> average_likes_per_day agg = Inr avg_likes
        \<and> average_comments_per_day agg = Inr avg_comments
        \<and> net tr1 (coin_balances_request address) = Inr r' \<and> \<not> is_success (status_code r') \<longrightarrow>
      calculate_berries_endpoint net credibility_model influencer_model address tr
        = (Inl (HTTPException (status_code r')
                 (Error_fetching_external_data (HTTPStatusError (status_code r')))),
           tr1 @ [Get (coin_balances_request address)]))"
proof (intro conjI impI)
  assume "net tr (user_posts_request address) = Inr r \<and> \<not> is_success (status_code r)"
  then have "fetch_user_posts net address tr =
       (Inl (HTTPStatusError (status_code r)), tr @ [Get (user_posts_request address)])"
    by (simp add: fetch_user_posts_status)
  then show "calculate_berries_endpoint net credibility_model influencer_model address tr
        = (Inl (HTTPException (status_code r)
                 (Error_fetching_external_data (HTTPStatusError (status_code r)))),
           tr @ [Get (user_posts_request address)])"
    by (simp add: endpoint_fetch_posts_error)
next
  assume a: "fetch_user_posts net address tr = (Inr user_posts_data, tr1)
        \<and> aggregate_posts user_posts_data = Inr agg
        \<and> average_likes_per_day agg = Inr avg_likes
        \<and> average_comments_per_day agg = Inr avg_comments
        \<and> net tr1 (coin_balances_request address) = Inr r' \<and> \<not> is_success (status_code r')"
  then have "fetch_coin_balances net address tr1 =
       (Inl (HTTPStatusError (status_code r')), tr1 @ [Get (coin_balances_request address)])"
    by (simp add: fetch_coin_balances_status)
  with a endpoint_fetch_balances_error
    [of net address tr user_posts_data tr1 agg avg_likes avg_comments
        "HTTPStatusError (status_code r')" "tr1 @ [Get (coin_balances_request address)]"
        credibility_model influencer_model]
  show "calculate_berries_endpoint net credibility_model influencer_model address tr
        = (Inl (HTTPException (status_code r')
                 (Error_fetching_external_data (HTTPStatusError (status_code r')))),
           tr1 @ [Get (coin_balances_request address)])"
    by simp
qed

theorem upstream_status_is_surfaced_witness:
  "calculate_berries_endpoint
     (stub_network ''0xA'' (status 404) (ok (coin_balances_payload [balance ''APT'' (PInt 500)])))
     (stub_predictor (Nd1 [3 / 4])) (stub_predictor (Nd2 [[42]])) ''0xA'' []
   = (Inl (HTTPException 404 (Error_fetching_external_data (HTTPStatusError 404))),
      [Get (user_posts_request ''0xA'')])
   \<and> calculate_berries_endpoint
     (stub_network ''0xA''
        (ok (user_posts_payload
               [profile_resource (PInt 120),
                posts_resource [post (PInt 10) [PNone, PNone, PNone], post (PInt 20) [PNone]]]))
        (status 503))
     (stub_predictor (Nd1 [3 / 4])) (stub_predictor (Nd2 [[42]])) ''0xA'' []
   = (Inl (HTTPException 503 (Error_fetching_external_data (HTTPStatusError 503))),
      [Get (user_posts_request ''0xA''), Get (coin_balances_request ''0xA'')])"
proof -
  let ?balances = "coin_balances_payload [balance ''APT'' (PInt 500)]"
  let ?posts = "user_posts_payload
               [profile_resource (PInt 120),
                posts_resource [post (PInt 10) [PNone, PNone, PNone], post (PInt 20) [PNone]]]"
  let ?net1 = "stub_network ''0xA'' (status 404) (ok ?balances)"
  let ?net2 = "stub_network ''0xA'' (ok ?posts) (status 503)"
  let ?r1 = "\<lparr>status_code = 404, body = None\<rparr>"
  let ?r2 = "\<lparr>status_code = 503, body = None\<rparr>"
  let ?agg = "\<lparr>total_followers = 120, total_likes = 30, total_comments = 4, total_posts = 2\<rparr>"
  have a: "?net1 [] (user_posts_request ''0xA'') = Inr ?r1 \<and> \<not> is_success (status_code ?r1)"
    by (simp add: stub_network_def status_def is_success_def)
  have b: "fetch_user_posts ?net2 ''0xA'' [] = (Inr ?posts, [Get (user_posts_request ''0xA'')])
     \<and> aggregate_posts ?posts = Inr ?agg
     \<and> average_likes_per_day ?agg = Inr (PFloat 15)
     \<and> average_comments_per_day ?agg = Inr (PFloat 2)
     \<and> ?net2 [Get (user_posts_request ''0xA'')] (coin_balances_request ''0xA'') = Inr ?r2
     \<and> \<not> is_success (status_code ?r2)"
    by (simp add: fixture_defs eval_defs)
  from upstream_status_is_surfaced
      [where net = ?net1 and tr = "[]" and address = "''0xA''" and r = ?r1,
       THEN conjunct1, rule_format, OF a]
    upstream_status_is_surfaced
      [where net = ?net2 and tr = "[]" and address = "''0xA''" and user_posts_data = ?posts
         and ?tr1.0 = "[Get (user_posts_request ''0xA'')]" and agg = ?agg
         and avg_likes = "PFloat 15" and avg_comments = "PFloat 2" and r' = ?r2,
       THEN conjunct2, rule_format, OF b]
  show ?thesis by simp
qed

subsection \<open>C7: payloads that lack an expected key\<close>

text \<open>
  C7 as stated (every fetched payload lacking an expected key makes the endpoint fail with
  the distinguishable error) fails twice. The scan of the balances ends at the first APT
  entry, and an entry after it that lacks its metadata is never looked at: the first
  request below succeeds. And a fault of another kind that comes first in the scan is the
  one reported: in the second request the first resource has a follower count that is no
  number and the second one lacks its type, and the answer is the generic Internal Server
  Error with the ValueError, not the Unexpected data structure one.
\<close>

theorem missing_key_is_not_always_reported:
  "getitem (PDict []) ''metadata'' = Inl (KeyError ''metadata'')
   \<and> calculate_berries_endpoint
     (stub_network ''0xA''
        (ok (user_posts_payload [profile_resource (PInt 120)]))
        (ok (coin_balances_payload [balance ''APT'' (PInt 500), PDict []])))
     (stub_predictor (Nd1 [3 / 4])) (stub_predictor (Nd2 [[42]])) ''0xA'' []
   = (Inr \<lparr>credibility_weight = 3 / 4, berries = 42\<rparr>,
      [Get (user_posts_request ''0xA''), Get (coin_balances_request ''0xA''),
       Predict Credibility [[PInt 500, PInt 5000]],
       Predict Influencer
         [[PInt 120, PInt 0, PInt 0, PInt 10, PInt 0, PInt 0, PFloat (3 / 4)]]])
   \<and> getitem (PDict []) ''type'' = Inl (KeyError ''type'')
   \<and> calculate_berries_endpoint
     (stub_network ''0xA''
        (ok (user_posts_payload [profile_resource (PStr ''many''), PDict []]))
        (ok (coin_balances_payload [balance ''APT'' (PInt 500)])))
     (stub_predictor (Nd1 [3 / 4])) (stub_predictor (Nd2 [[42]])) ''0xA'' []
   = (Inl (HTTPException 500 (Internal_Server_Error ValueError)),
      [Get (user_posts_request ''0xA'')])"
  by (simp add: fixture_defs eval_defs int_of_str_def parse_number_def max_str_digits_def
      strip_def is_space_def is_digit_def)

text \<open>
  C7, amended: once the user posts are fetched, a user-posts payload that lacks a key the
  handler looks up makes the endpoint fail with status 500 and no prediction asked for;
  so does, once it is fetched (the user posts being aggregated and the two averages
  computed), a balances payload that lacks latest_balances, or metadata or symbol in an
  entry up to and including the first APT entry. When moreover the values present have the
  expected types, so that no other fault comes first, the error is the distinguishable
  one, Unexpected data structure, carrying the KeyError.
\<close>

theorem missing_key_is_rejected:
  assumes "fetch_user_posts net address tr = (Inr user_posts_data, tr1)"
  shows "(\<not> user_posts_complete user_posts_data \<longrightarrow>
            (\<exists>d. calculate_berries_endpoint net credibility_model influencer_model address tr
                   = (Inl (HTTPException 500 d), tr1)) \<and>
            (user_posts_typed user_posts_data \<longrightarrow>
               (\<exists>k. calculate_berries_endpoint net credibility_model influencer_model address tr
                   = (Inl (HTTPException 500 (Unexpected_data_structure (KeyError k))), tr1))))
       \<and> (aggregate_posts user_posts_data = Inr agg
            \<and> average_likes_per_day agg = Inr avg_likes
            \<and> average_comments_per_day agg = Inr avg_comments
            \<and> fetch_coin_balances net address tr1 = (Inr coin_balances, tr2)
            \<and> \<not> coin_balances_complete coin_balances \<longrightarrow>
            (\<exists>d. calculate_berries_endpoint net credibility_model influencer_model address tr
                   = (Inl (HTTPException 500 d), tr2)) \<and>
            (coin_balances_typed coin_balances \<longrightarrow>
               (\<exists>k. calculate_berries_endpoint net credibility_model influencer_model address tr
                   = (Inl (HTTPException 500 (Unexpected_data_structure (KeyError k))), tr2))))"
proof (intro conjI impI)
  assume nc: "\<not> user_posts_complete user_posts_data"
  then obtain e where e: "aggregate_posts user_posts_data = Inl e"
    using aggregate_posts_complete by (cases "aggregate_posts user_posts_data") auto
  then have "\<And>s. e \<noteq> HTTPStatusError s" using aggregate_posts_no_http by metis
  from translate_500 [OF this] endpoint_aggregate_error [OF assms e]
  show "\<exists>d. calculate_berries_endpoint net credibility_model influencer_model address tr
                   = (Inl (HTTPException 500 d), tr1)" by auto
  assume "user_posts_typed user_posts_data"
  from aggregate_posts_typed(2) [OF this nc] obtain k
    where "aggregate_posts user_posts_data = Inl (KeyError k)" by blast
  from endpoint_aggregate_error [OF assms this]
  show "\<exists>k. calculate_berries_endpoint net credibility_model influencer_model address tr
                   = (Inl (HTTPException 500 (Unexpected_data_structure (KeyError k))), tr1)"
    by auto
next
  assume a: "aggregate_posts user_posts_data = Inr agg
            \<and> average_likes_per_day agg = Inr avg_likes
            \<and> average_comments_per_day agg = Inr avg_comments
            \<and> fetch_coin_balances net address tr1 = (Inr coin_balances, tr2)
            \<and> \<not> coin_balances_complete coin_balances"
  then have agg: "aggregate_posts user_posts_data = Inr agg"
    and al: "average_likes_per_day agg = Inr avg_likes"
    and ac: "average_comments_per_day agg = Inr avg_comments"
    and fb: "fetch_coin_balances net address tr1 = (Inr coin_balances, tr2)"
    and nc: "\<not> coin_balances_complete coin_balances" by simp_all
  from nc obtain e where e: "onchain_net_worth coin_balances = Inl e"
    using onchain_net_worth_complete by (cases "onchain_net_worth coin_balances") auto
  then have "\<And>s. e \<noteq> HTTPStatusError s" using onchain_net_worth_no_http by metis
  from translate_500 [OF this] endpoint_net_worth_error [OF assms agg al ac fb e]
  show "\<exists>d. calculate_berries_endpoint net credibility_model influencer_model address tr
                   = (Inl (HTTPException 500 d), tr2)" by auto
  assume "coin_balances_typed coin_balances"
  from onchain_net_worth_typed(2) [OF this nc] obtain k
    where "onchain_net_worth coin_balances = Inl (KeyError k)" by blast
  from endpoint_net_worth_error [OF assms agg al ac fb this]
  show "\<exists>k. calculate_berries_endpoint net credibility_model influencer_model address tr
                   = (Inl (HTTPException 500 (Unexpected_data_structure (KeyError k))), tr2)"
    by auto
qed

theorem missing_key_is_rejected_witness:
  "\<not> user_posts_complete
       (user_posts_payload
          [PDict [(''type'', PStr ''0x1::SocialMediaPlatform::Profile''), (''data'', PDict [])]])
   \<and> calculate_berries_endpoint
     (stub_network ''0xA''
        (ok (user_posts_payload
          [PDict [(''type'', PStr ''0x1::SocialMediaPlatform::Profile''), (''data'', PDict [])]]))
        (ok (coin_balances_payload [balance ''APT'' (PInt 500)])))
     (stub_predictor (Nd1 [3 / 4])) (stub_predictor (Nd2 [[42]])) ''0xA'' []
   = (Inl (HTTPException 500 (Unexpected_data_structure (KeyError ''followers_count''))),
      [Get (user_posts_request ''0xA'')])
   \<and> \<not> coin_balances_complete
       (coin_balances_payload [PDict [(''metadata'', PDict [])], balance ''APT'' (PInt 500)])
   \<and> calculate_berries_endpoint
     (stub_network ''0xA''
        (ok (user_posts_payload
               [profile_resource (PInt 120),
                posts_resource [post (PInt 10) [PNone, PNone, PNone], post (PInt 20) [PNone]]]))
        (ok (coin_balances_payload [PDict [(''metadata'', PDict [])], balance ''APT'' (PInt 500)])))
     (stub_predictor (Nd1 [3 / 4])) (stub_predictor (Nd2 [[42]])) ''0xA'' []
   = (Inl (HTTPException 500 (Unexpected_data_structure (KeyError ''symbol''))),
      [Get (user_posts_request ''0xA''), Get (coin_balances_request ''0xA'')])"
proof -
  let ?bad_posts = "user_posts_payload
          [PDict [(''type'', PStr ''0x1::SocialMediaPlatform::Profile''), (''data'', PDict [])]]"
  let ?posts = "user_posts_payload
               [profile_resource (PInt 120),
                posts_resource [post (PInt 10) [PNone, PNone, PNone], post (PInt 20) [PNone]]]"
  let ?balances = "coin_balances_payload [balance ''APT'' (PInt 500)]"
  let ?bad_balances =
    "coin_balances_payload [PDict [(''metadata'', PDict [])], balance ''APT'' (PInt 500)]"
  let ?net1 = "stub_network ''0xA'' (ok ?bad_posts) (ok ?balances)"
  let ?net2 = "stub_network ''0xA'' (ok ?posts) (ok ?bad_balances)"
  let ?cm = "stub_predictor (Nd1 [3 / 4])"
  let ?im = "stub_predictor (Nd2 [[42]])"
  let ?agg = "\<lparr>total_followers = 120, total_likes = 30, total_comments = 4, total_posts = 2\<rparr>"
  let ?tr1 = "[Get (user_posts_request ''0xA'')]"
  let ?tr2 = "[Get (user_posts_request ''0xA''), Get (coin_balances_request ''0xA'')]"
  have f1: "fetch_user_posts ?net1 ''0xA'' [] = (Inr ?bad_posts, ?tr1)"
    by (simp add: fetch_user_posts_def stub_network_def ok_def raise_for_status_def
        is_success_def json_def)
  have n1: "\<not> user_posts_complete ?bad_posts" by (simp add: shape_defs fixture_defs eval_defs)
  have t1: "user_posts_typed ?bad_posts" by (simp add: shape_defs fixture_defs eval_defs)
  have f2: "fetch_user_posts ?net2 ''0xA'' [] = (Inr ?posts, ?tr1)"
    by (simp add: fetch_user_posts_def stub_network_def ok_def raise_for_status_def
        is_success_def json_def)
  have a2: "aggregate_posts ?posts = Inr ?agg" by (simp add: fixture_defs eval_defs)
  have l2: "average_likes_per_day ?agg = Inr (PFloat 15)"
    by (simp add: average_likes_per_day_def truediv_def to_float_small)
  have c2': "average_comments_per_day ?agg = Inr (PFloat 2)"
    by (simp add: average_comments_per_day_def truediv_def to_float_small)
  have b2: "fetch_coin_balances ?net2 ''0xA'' ?tr1 = (Inr ?bad_balances, ?tr2)"
    by (simp add: fetch_coin_balances_def stub_network_def ok_def raise_for_status_def
        is_success_def json_def user_posts_request_def coin_balances_request_def)
  have n2: "\<not> coin_balances_complete ?bad_balances"
    by (simp add: shape_defs fixture_defs eval_defs)
  have t2: "coin_balances_typed ?bad_balances"
    by (simp add: shape_defs fixture_defs eval_defs)
  from missing_key_is_rejected [where credibility_model = ?cm and influencer_model = ?im,
      OF f1, THEN conjunct1, rule_format, OF n1, THEN conjunct2, rule_format, OF t1]
  have e1: "\<exists>k. calculate_berries_endpoint ?net1 ?cm ?im ''0xA'' []
      = (Inl (HTTPException 500 (Unexpected_data_structure (KeyError k))), ?tr1)" .
  from missing_key_is_rejected [where credibility_model = ?cm and influencer_model = ?im
        and agg = ?agg and avg_likes = "PFloat 15" and avg_comments = "PFloat 2"
        and coin_balances = ?bad_balances and ?tr2.0 = ?tr2,
      OF f2, THEN conjunct2, rule_format,
      OF conjI [OF a2 conjI [OF l2 conjI [OF c2' conjI [OF b2 n2]]]],
      THEN conjunct2, rule_format, OF t2]
  have e2: "\<exists>k. calculate_berries_endpoint ?net2 ?cm ?im ''0xA'' []
      = (Inl (HTTPException 500 (Unexpected_data_structure (KeyError k))), ?tr2)" .
  have c1: "calculate_berries_endpoint ?net1 ?cm ?im ''0xA'' []
      = (Inl (HTTPException 500 (Unexpected_data_structure (KeyError ''followers_count''))), ?tr1)"
    using e1 by (simp add: fixture_defs eval_defs)
  have c2: "calculate_berries_endpoint ?net2 ?cm ?im ''0xA'' []
      = (Inl (HTTPException 500 (Unexpected_data_structure (KeyError ''symbol''))), ?tr2)"
    using e2 by (simp add: fixture_defs eval_defs)
  from n1 c1 n2 c2 show ?thesis by blast
qed

subsection \<open>C8: the end-to-end example\<close>

text \<open>
  C8: one profile resource with 120 followers and one posts resource with two posts (10
  and 20 likes, 3 and 1 comments) aggregate to 120 followers, 30 likes, 4 comments and 2
  posts, with averages 15.0 and 2.0; one APT entry of 500 USD gives the net worth 500.
\<close>

theorem end_to_end_example:
  "aggregate_posts
     (user_posts_payload
        [profile_resource (PInt 120),
         posts_resource [post (PInt 10) [PStr ''a'', PStr ''b'', PStr ''c''],
                         post (PInt 20) [PStr ''d'']]])
     = Inr \<lparr>total_followers = 120, total_likes = 30, total_comments = 4, total_posts = 2\<rparr>
   \<and> average_likes_per_day
        \<lparr>total_followers = 120, total_likes = 30, total_comments = 4, total_posts = 2\<rparr>
       = Inr (PFloat 15)
   \<and> average_comments_per_day
        \<lparr>total_followers = 120, total_likes = 30, total_comments = 4, total_posts = 2\<rparr>
       = Inr (PFloat 2)
   \<and> onchain_net_worth (coin_balances_payload [balance ''APT'' (PInt 500)]) = Inr (PInt 500)"
  by (simp add: fixture_defs eval_defs)

subsection \<open>C9: no profile resource\<close>

text \<open>
  C9: for every user-posts payload, complete and well typed, with no profile-like resource,
  the aggregation succeeds with 0 total followers and with likes, comments and posts summed
  over all the posts-like resources; and, the balances being fetched and scanned and the
  two predictors answering, the request succeeds, the influencer row starting with 0.
\<close>

theorem no_profile_means_zero_followers:
  assumes "fetch_user_posts net address tr = (Inr user_posts_data, tr1)"
    and "user_posts_typed user_posts_data"
    and "user_posts_complete user_posts_data"
    and "\<forall>r\<in>set (resources_of user_posts_data). \<not> profile_like r"
    and "average_likes_per_day (resource_totals (resources_of user_posts_data)) = Inr avg_likes"
    and "average_comments_per_day (resource_totals (resources_of user_posts_data)) = Inr avg_comments"
    and "fetch_coin_balances net address tr1 = (Inr coin_balances, tr2)"
    and "onchain_net_worth coin_balances = Inr net_worth"
    and "and_then (credibility_model [[net_worth, PInt 5000]]) first_scalar = Inr cw"
    and "\<forall>features. and_then (influencer_model features) first_scalar = Inr (score features)"
  shows "aggregate_posts user_posts_data = Inr (resource_totals (resources_of user_posts_data))
       \<and> total_followers (resource_totals (resources_of user_posts_data)) = 0
       \<and> calculate_berries_endpoint net credibility_model influencer_model address tr
           = (Inr \<lparr>credibility_weight = cw,
                    berries = score
                      [[PInt 0,
                        PInt (total_likes (resource_totals (resources_of user_posts_data))),
                        PInt (total_comments (resource_totals (resources_of user_posts_data))),
                        PInt 10, avg_likes, avg_comments, PFloat cw]]\<rparr>,
              tr2 @ [Predict Credibility [[net_worth, PInt 5000]],
                     Predict Influencer
                       [[PInt 0,
                         PInt (total_likes (resource_totals (resources_of user_posts_data))),
                         PInt (total_comments (resource_totals (resources_of user_posts_data))),
                         PInt 10, avg_likes, avg_comments, PFloat cw]]])"
proof -
  let ?T = "resource_totals (resources_of user_posts_data)"
  from aggregate_posts_typed(1) [OF assms(2,3)] obtain agg
    where "aggregate_posts user_posts_data = Inr agg" by blast
  then have agg: "aggregate_posts user_posts_data = Inr ?T"
    using aggregate_posts_is_totals by blast
  have "filter profile_like (resources_of user_posts_data) = []"
    using assms(4) by (simp add: filter_empty_conv)
  then have zero: "total_followers ?T = 0" by (simp add: resource_totals_def)
  show ?thesis
    using assms(9,10) zero agg
    by (simp add: endpoint_inference [OF assms(1) agg assms(5,6,7,8)]
        calculate_credibility_weight_first_scalar
        calculate_berries_first_scalar [OF berries_features_dict])
qed

theorem no_profile_means_zero_followers_witness:
  "aggregate_posts
     (user_posts_payload
        [posts_resource [post (PInt 10) [PNone, PNone]],
         posts_resource [post (PInt 5) [], post (PInt 9) [PNone]]])
     = Inr \<lparr>total_followers = 0, total_likes = 24, total_comments = 3, total_posts = 3\<rparr>
   \<and> calculate_berries_endpoint
     (stub_network ''0xA''
        (ok (user_posts_payload
               [posts_resource [post (PInt 10) [PNone, PNone]],
                posts_resource [post (PInt 5) [], post (PInt 9) [PNone]]]))
        (ok (coin_balances_payload [balance ''APT'' (PInt 500)])))
     (stub_predictor (Nd1 [3 / 4])) (stub_predictor (Nd2 [[42]])) ''0xA'' []
   = (Inr \<lparr>credibility_weight = 3 / 4, berries = 42\<rparr>,
      [Get (user_posts_request ''0xA''), Get (coin_balances_request ''0xA''),
       Predict Credibility [[PInt 500, PInt 5000]],
       Predict Influencer
         [[PInt 0, PInt 24, PInt 3, PInt 10, PFloat 8, PFloat 1, PFloat (3 / 4)]]])"
proof -
  let ?rs = "[posts_resource [post (PInt 10) [PNone, PNone]],
              posts_resource [post (PInt 5) [], post (PInt 9) [PNone]]]"
  let ?posts = "user_posts_payload ?rs"
  let ?balances = "coin_balances_payload [balance ''APT'' (PInt 500)]"
  let ?net = "stub_network ''0xA'' (ok ?posts) (ok ?balances)"
  let ?agg = "\<lparr>total_followers = 0, total_likes = 24, total_comments = 3, total_posts = 3\<rparr>"
  have rs: "resources_of ?posts = ?rs" by (simp add: resources_of_def user_posts_payload_def)
  have tot: "resource_totals ?rs = ?agg" by (simp add: totals_defs fixture_defs eval_defs)
  have h1: "fetch_user_posts ?net ''0xA'' [] = (Inr ?posts, [Get (user_posts_request ''0xA'')])"
    by (simp add: fetch_user_posts_def stub_network_def ok_def raise_for_status_def
        is_success_def json_def)
  have h2: "user_posts_typed ?posts" by (simp add: shape_defs fixture_defs eval_defs)
  have h3: "user_posts_complete ?posts" by (simp add: shape_defs fixture_defs eval_defs)
  have h4: "\<forall>r\<in>set (resources_of ?posts). \<not> profile_like r"
    by (simp add: rs) (simp add: shape_defs fixture_defs eval_defs)
  have h5: "average_likes_per_day (resource_totals (resources_of ?posts)) = Inr (PFloat 8)"
    by (simp add: rs tot average_likes_per_day_def truediv_def to_float_small)
  have h6: "average_comments_per_day (resource_totals (resources_of ?posts)) = Inr (PFloat 1)"
    by (simp add: rs tot average_comments_per_day_def truediv_def to_float_small)
  have h7: "fetch_coin_balances ?net ''0xA'' [Get (user_posts_request ''0xA'')]
      = (Inr ?balances, [Get (user_posts_request ''0xA''), Get (coin_balances_request ''0xA'')])"
    by (simp add: fetch_coin_balances_def stub_network_def ok_def raise_for_status_def
        is_success_def json_def user_posts_request_def coin_balances_request_def)
  have h8: "onchain_net_worth ?balances = Inr (PInt 500)" by (simp add: fixture_defs eval_defs)
  have h9: "and_then (stub_predictor (Nd1 [3 / 4]) [[PInt 500, PInt 5000]]) first_scalar
      = Inr (3 / 4)"
    by (simp add: stub_predictor_def first_scalar_def)
  have h10: "\<forall>features. and_then (stub_predictor (Nd2 [[42]]) features) first_scalar
      = Inr ((\<lambda>_. 42) features)"
    by (simp add: stub_predictor_def first_scalar_def)
  from no_profile_means_zero_followers
      [where credibility_model = "stub_predictor (Nd1 [3 / 4])"
         and influencer_model = "stub_predictor (Nd2 [[42]])" and score = "\<lambda>_. 42",
       OF h1 h2 h3 h4 h5 h6 h7 h8 h9 h10]
  show ?thesis by (simp add: rs tot)
qed

subsection \<open>C10: a first APT entry without an amount\<close>

text \<open>
  C10: when the first entry with symbol APT has no amount_in_usd, the net worth is 0,
  whatever comes after it, a later APT entry with an amount included.
\<close>

theorem first_apt_without_amount_gives_zero:
  assumes "getitem coin_balances ''latest_balances'' = Inr (PList (before @ b # after))"
    and "\<forall>x\<in>set before. \<not> isl (symbol_of x) \<and> \<not> is_apt x"
    and "is_apt b"
    and "\<not> has_key b ''amount_in_usd''"
  shows "onchain_net_worth coin_balances = Inr (PInt 0)"
proof -
  have tw: "takeWhile (\<lambda>b. \<not> is_apt b) (before @ b # after) = before"
    using assms(2,3) by (simp add: takeWhile_append2)
  have "find is_apt (before @ b # after) = Some b"
    using assms(2,3) by (induction before) auto
  moreover have "usd_amount b = PInt 0"
    using assms(3,4) by (cases b) (auto simp: usd_amount_def has_key_def is_apt_def
        symbol_of_def split: option.splits)
  moreover have "iterate (PList (before @ b # after)) = Inr (before @ b # after)" by simp
  ultimately show ?thesis
    using onchain_net_worth_find [OF assms(1), of "before @ b # after"] assms(2) tw
    by simp
qed

theorem first_apt_without_amount_gives_zero_witness:
  "onchain_net_worth
     (coin_balances_payload
        [balance ''USDC'' (PInt 3), balance_without_amount ''APT'', balance ''APT'' (PInt 700)])
     = Inr (PInt 0)"
proof -
  let ?before = "[balance ''USDC'' (PInt 3)]"
  let ?after = "[balance ''APT'' (PInt 700)]"
  let ?b = "balance_without_amount ''APT''"
  have h1: "getitem (coin_balances_payload (?before @ ?b # ?after)) ''latest_balances''
              = Inr (PList (?before @ ?b # ?after))"
    by (simp add: coin_balances_payload_def)
  have h2: "\<forall>x\<in>set ?before. \<not> isl (symbol_of x) \<and> \<not> is_apt x"
    by (simp add: balance_eval fixture_defs)
  have h3: "is_apt ?b" by (simp add: balance_eval fixture_defs)
  have h4: "\<not> has_key ?b ''amount_in_usd''" by (simp add: has_key_def fixture_defs)
  from first_apt_without_amount_gives_zero [OF h1 h2 h3 h4] show ?thesis by simp
qed

end
